theory Spec2Isabelle
  imports Complex_Main "HOL-Library.Char_ord" "HOL-Library.List_Lexorder"
begin

section \<open>Python values\<close>

text \<open>
  Python floats are modelled as exact reals: no rounding, no infinities, no NaN.
  A decoded JSON document is a value of \<open>json\<close>; a Python \<open>dict\<close> with string keys
  is an association list in insertion order, looked up with \<open>map_of\<close>.
  Every exception the modelled code can raise is a value of \<open>error\<close>.
\<close>

datatype json =
    JNull
  | JBool bool
  | JNum real
  | JStr string
  | JArr "json list"
  | JObj "(string \<times> json) list"

datatype error =
    TypeError
  | AttributeError
  | IndexError
  | KeyError
  | ValueError
  | ZeroDivisionError
  | OSError

type_synonym dict = "(string \<times> json) list"

type_synonym path = "string list"

text \<open>Truth value of a Python object in a condition (\<open>if x:\<close>).\<close>

fun truthy :: "json \<Rightarrow> bool" where
  "truthy JNull = False"
| "truthy (JBool b) = b"
| "truthy (JNum x) = (x \<noteq> 0)"
| "truthy (JStr s) = (s \<noteq> [])"
| "truthy (JArr xs) = (xs \<noteq> [])"
| "truthy (JObj kvs) = (kvs \<noteq> [])"

text \<open>The numeric value of an operand of float arithmetic; \<open>bool\<close> is a subclass of
  \<open>int\<close>, every other kind of value makes the arithmetic raise \<open>TypeError\<close>.\<close>

fun as_number :: "json \<Rightarrow> real option" where
  "as_number (JNum x) = Some x"
| "as_number (JBool b) = Some (if b then 1 else 0)"
| "as_number _ = None"

text \<open>\<open>d.get(k, default)\<close>; on anything but a dict the attribute lookup fails.\<close>

fun py_get :: "json \<Rightarrow> string \<Rightarrow> json \<Rightarrow> error + json" where
  "py_get (JObj kvs) k d = Inr (case map_of kvs k of None \<Rightarrow> d | Some v \<Rightarrow> v)"
| "py_get _ k d = Inl AttributeError"

text \<open>\<open>x[i]\<close> for a literal index \<open>i \<ge> 0\<close>. The keys of a decoded JSON object are
  strings, so an integer key is never found.\<close>

fun py_index :: "json \<Rightarrow> nat \<Rightarrow> error + json" where
  "py_index (JArr xs) i = (if i < length xs then Inr (xs ! i) else Inl IndexError)"
| "py_index (JStr s) i = (if i < length s then Inr (JStr [s ! i]) else Inl IndexError)"
| "py_index (JObj kvs) i = Inl KeyError"
| "py_index _ i = Inl TypeError"



subsection \<open>Rounding and formatting\<close>

text \<open>Rounding to the nearest integer, ties to even, as \<open>round\<close> and the \<open>f\<close>
  format do.\<close>

definition round_half_even :: "real \<Rightarrow> int" where
  "round_half_even x =
     (let f = \<lfloor>x\<rfloor>; d = x - of_int f
      in if d < 1 / 2 then f else if 1 / 2 < d then f + 1
         else if even f then f else f + 1)"

text \<open>\<open>round(x, 2)\<close>.\<close>

definition round2 :: "real \<Rightarrow> real" where
  "round2 x = of_int (round_half_even (x * 100)) / 100"

definition digit_char :: "nat \<Rightarrow> char" where
  "digit_char d = ''0123456789'' ! d"

function digits_of :: "nat \<Rightarrow> string" where
  "digits_of n =
     (if n < 10 then [digit_char n] else digits_of (n div 10) @ [digit_char (n mod 10)])"
  by pat_completeness auto
termination
  by (relation "measure id") auto

declare digits_of.simps [simp del]

text \<open>\<open>f"{x:.6f}"\<close>: sign, integer part, point, six decimals.\<close>

definition fmt6 :: "real \<Rightarrow> string" where
  "fmt6 x =
     (let n = nat (round_half_even (\<bar>x\<bar> * 1000000));
          frac = digits_of (n mod 1000000)
      in (if x < 0 then ''-'' else '''') @ digits_of (n div 1000000) @ ''.''
           @ replicate (6 - length frac) (CHR ''0'') @ frac)"

text \<open>\<open>str(path)\<close> on a POSIX path.\<close>

fun path_str :: "path \<Rightarrow> string" where
  "path_str [] = ''.''"
| "path_str [c] = c"
| "path_str (c # cs) = c @ ''/'' @ path_str cs"

section \<open>frame\_processor.py\<close>

type_synonym bytes = "char list"

text \<open>A frame packet as \<open>parse_frame_packet\<close> builds it: \<open>timestamp\<close>, \<open>imu\<close> and
  \<open>camera_intrinsics\<close> are whatever JSON values the message carried.\<close>

record FramePacket =
  timestamp :: json
  frame_data :: bytes
  imu :: json
  camera_intrinsics :: json
  received_at :: real

definition latency_ms :: "FramePacket \<Rightarrow> error + real" where
  "latency_ms p =
     (case as_number (timestamp p) of
        None \<Rightarrow> Inl TypeError
      | Some t \<Rightarrow> Inr ((received_at p - t) * 1000))"

record SessionStats =
  session_id :: string
  start_time :: real
  frame_count :: nat
  total_bytes :: nat
  last_frame_time :: json
  latencies :: "real list"

text \<open>\<open>SessionStats(session_id=...)\<close>; \<open>now\<close> is the value of \<open>time.time()\<close>.\<close>

definition new_stats :: "string \<Rightarrow> real \<Rightarrow> SessionStats" where
  "new_stats sid now =
     \<lparr>session_id = sid, start_time = now, frame_count = 0, total_bytes = 0,
      last_frame_time = JNum 0, latencies = []\<rparr>"

text \<open>The property \<open>duration\<close> reads the clock each time it is evaluated; \<open>now\<close> is
  that reading.\<close>

definition duration :: "SessionStats \<Rightarrow> real \<Rightarrow> real" where
  "duration s now = now - start_time s"

text \<open>\<open>fps\<close> and \<open>bandwidth_mbps\<close> evaluate \<open>self.duration\<close> twice: \<open>t1\<close> is the
  clock reading of the guard, \<open>t2\<close> the reading of the division.\<close>

definition fps :: "SessionStats \<Rightarrow> real \<Rightarrow> real \<Rightarrow> error + real" where
  "fps s t1 t2 =
     (if 0 < duration s t1 then
        (if duration s t2 = 0 then Inl ZeroDivisionError
         else Inr (of_nat (frame_count s) / duration s t2))
      else Inr 0)"

text \<open>\<open>xs[-100:]\<close>.\<close>

definition last100 :: "'a list \<Rightarrow> 'a list" where
  "last100 xs = drop (length xs - 100) xs"

definition avg_latency_ms :: "SessionStats \<Rightarrow> error + real" where
  "avg_latency_ms s =
     (if latencies s \<noteq> [] then
        (let recent = last100 (latencies s)
         in if length recent = 0 then Inl ZeroDivisionError
            else Inr (sum_list recent / of_nat (length recent)))
      else Inr 0)"

definition bandwidth_mbps :: "SessionStats \<Rightarrow> real \<Rightarrow> real \<Rightarrow> error + real" where
  "bandwidth_mbps s t1 t2 =
     (if 0 < duration s t1 then
        (if duration s t2 * 1000000 = 0 then Inl ZeroDivisionError
         else Inr (of_nat (total_bytes s * 8) / (duration s t2 * 1000000)))
      else Inr 0)"


subsection \<open>The captures directory\<close>

text \<open>
  What a session directory holds: the names of the files in \<open>rgb/\<close> (\<open>None\<close> when
  the directory is missing), the rows of \<open>imu.csv\<close>, the lines of \<open>rgb.txt\<close>, and the
  JSON documents \<open>intrinsics.json\<close> and \<open>session_stats.json\<close>. The captures directory
  is the list of its entries by name, in the order \<open>iterdir()\<close> yields them. Session ids
  are single path components.
\<close>

record session_files =
  rgb_dir :: "string list option"
  imu_csv :: "json list list option"
  rgb_txt :: "string list option"
  intrinsics_json :: "json option"
  session_stats_json :: "json option"

datatype entry = File | Dir session_files

type_synonym captures = "(string \<times> entry) list"

fun alist_set :: "('k \<times> 'v) list \<Rightarrow> 'k \<Rightarrow> 'v \<Rightarrow> ('k \<times> 'v) list" where
  "alist_set [] k v = [(k, v)]"
| "alist_set ((k', v') # kvs) k v =
     (if k' = k then (k, v) # kvs else (k', v') # alist_set kvs k v)"

definition empty_session :: session_files where
  "empty_session =
     \<lparr>rgb_dir = None, imu_csv = None, rgb_txt = None, intrinsics_json = None,
      session_stats_json = None\<rparr>"

text \<open>\<open>(session_path / "rgb").mkdir(parents=True, exist_ok=True)\<close>.\<close>

definition mkdir_rgb :: "captures \<Rightarrow> string \<Rightarrow> error + captures" where
  "mkdir_rgb c name =
     (case map_of c name of
        None \<Rightarrow> Inr (alist_set c name (Dir (empty_session\<lparr>rgb_dir := Some []\<rparr>)))
      | Some File \<Rightarrow> Inl OSError
      | Some (Dir d) \<Rightarrow>
          Inr (alist_set c name
                 (Dir (d\<lparr>rgb_dir := (case rgb_dir d of None \<Rightarrow> Some [] | Some fs \<Rightarrow> Some fs)\<rparr>))))"

text \<open>A write into the session directory called \<open>name\<close>.\<close>

definition in_session ::
  "captures \<Rightarrow> string \<Rightarrow> (session_files \<Rightarrow> session_files) \<Rightarrow> captures" where
  "in_session c name f =
     (case map_of c name of
        Some (Dir d) \<Rightarrow> alist_set c name (Dir (f d))
      | _ \<Rightarrow> c)"

subsection \<open>FrameProcessor\<close>

text \<open>
  \<open>imu_file\<close> and \<open>rgb_txt_file\<close> hold the session path the handle was opened in;
  \<open>_imu_writer\<close> exists exactly when \<open>_imu_file\<close> does. \<open>captures\<close> is the content of
  \<open>base_dir\<close>.
\<close>

record FrameProcessor =
  base_dir :: path
  current_session :: "string option"
  session_path :: "path option"
  stats :: "SessionStats option"
  save_queue :: "(string \<times> bytes) list"
  running :: bool
  imu_file :: "path option"
  rgb_txt_file :: "path option"
  intrinsics_saved :: bool
  captures :: captures

definition init_processor :: "path \<Rightarrow> captures \<Rightarrow> FrameProcessor" where
  "init_processor base c =
     \<lparr>base_dir = base, current_session = None, session_path = None, stats = None,
      save_queue = [], running = False, imu_file = None, rgb_txt_file = None,
      intrinsics_saved = False, captures = c\<rparr>"

definition close_files :: "FrameProcessor \<Rightarrow> FrameProcessor" where
  "close_files fp = fp\<lparr>imu_file := None, rgb_txt_file := None\<rparr>"

definition imu_header :: "json list" where
  "imu_header =
     map JStr [''timestamp'', ''accel_x'', ''accel_y'', ''accel_z'',
               ''gyro_x'', ''gyro_y'', ''gyro_z'', ''qw'', ''qx'', ''qy'', ''qz'']"

definition open_files :: "FrameProcessor \<Rightarrow> FrameProcessor" where
  "open_files fp =
     (case session_path fp of
        None \<Rightarrow> fp
      | Some p \<Rightarrow>
          fp\<lparr>captures :=
               in_session (captures fp) (last p)
                 (\<lambda>d. d\<lparr>imu_csv := Some [imu_header],
                        rgb_txt := Some [''# timestamp filename'']\<rparr>),
             imu_file := Some p, rgb_txt_file := Some p\<rparr>)"

text \<open>\<open>stamp\<close> is \<open>datetime.now()\<close> formatted as \<open>%Y%m%d_%H%M%S\<close>, \<open>now\<close> is
  \<open>time.time()\<close>. An exception leaves the fields assigned before it.\<close>

definition create_session ::
  "string \<Rightarrow> real \<Rightarrow> string option \<Rightarrow> FrameProcessor \<Rightarrow> (error + string) \<times> FrameProcessor" where
  "create_session stamp now sid fp =
     (let fp1 = close_files fp;
          sid' = (case sid of None \<Rightarrow> ''session_'' @ stamp | Some s \<Rightarrow> s);
          fp2 = fp1\<lparr>current_session := Some sid', session_path := Some (base_dir fp1 @ [sid'])\<rparr>
      in case mkdir_rgb (captures fp2) sid' of
           Inl e \<Rightarrow> (Inl e, fp2)
         | Inr c \<Rightarrow>
             (Inr sid',
              (open_files (fp2\<lparr>captures := c, stats := Some (new_stats sid' now)\<rparr>))
                \<lparr>intrinsics_saved := False\<rparr>))"

definition try_bind :: "error + 'a \<Rightarrow> ('a \<Rightarrow> error + 'b) \<Rightarrow> error + 'b" where
  "try_bind m f = (case m of Inl e \<Rightarrow> Inl e | Inr x \<Rightarrow> f x)"

text \<open>The row \<open>process_frame\<close> writes to \<open>imu.csv\<close>.\<close>

definition imu_row :: "string \<Rightarrow> json \<Rightarrow> error + json list" where
  "imu_row timestamp_str i =
     try_bind (py_get i ''accel'' (JArr [JNum 0, JNum 0, JNum 0])) (\<lambda>accel.
     try_bind (py_get i ''gyro'' (JArr [JNum 0, JNum 0, JNum 0])) (\<lambda>gyro.
     try_bind (py_get i ''orientation'' (JArr [JNum 1, JNum 0, JNum 0, JNum 0])) (\<lambda>orient.
     try_bind (py_index accel 0) (\<lambda>a0.
     try_bind (py_index accel 1) (\<lambda>a1.
     try_bind (py_index accel 2) (\<lambda>a2.
     try_bind (py_index gyro 0) (\<lambda>g0.
     try_bind (py_index gyro 1) (\<lambda>g1.
     try_bind (py_index gyro 2) (\<lambda>g2.
     try_bind (py_index orient 0) (\<lambda>o0.
     try_bind (py_index orient 1) (\<lambda>o1.
     try_bind (py_index orient 2) (\<lambda>o2.
     try_bind (py_index orient 3) (\<lambda>o3.
       Inr [JStr timestamp_str, a0, a1, a2, g0, g1, g2, o0, o1, o2, o3])))))))))))))"

definition write_imu :: "string \<Rightarrow> FramePacket \<Rightarrow> FrameProcessor \<Rightarrow> error + FrameProcessor" where
  "write_imu timestamp_str packet fp =
     (case imu_file fp of
        None \<Rightarrow> Inr fp
      | Some p \<Rightarrow>
          if truthy (imu packet) then
            try_bind (imu_row timestamp_str (imu packet)) (\<lambda>row.
              Inr (fp\<lparr>captures :=
                        in_session (captures fp) (last p)
                          (\<lambda>d. d\<lparr>imu_csv := Some (case imu_csv d of None \<Rightarrow> [row]
                                                    | Some rows \<Rightarrow> rows @ [row])\<rparr>)\<rparr>))
          else Inr fp)"

definition write_rgb_txt :: "string \<Rightarrow> string \<Rightarrow> FrameProcessor \<Rightarrow> FrameProcessor" where
  "write_rgb_txt timestamp_str frame_filename fp =
     (case rgb_txt_file fp of
        None \<Rightarrow> fp
      | Some p \<Rightarrow>
          fp\<lparr>captures :=
               in_session (captures fp) (last p)
                 (\<lambda>d. let l = timestamp_str @ '' rgb/'' @ frame_filename
                      in d\<lparr>rgb_txt := Some (case rgb_txt d of None \<Rightarrow> [l]
                                             | Some ls \<Rightarrow> ls @ [l])\<rparr>)\<rparr>)"

definition save_intrinsics :: "path \<Rightarrow> FramePacket \<Rightarrow> FrameProcessor \<Rightarrow> FrameProcessor" where
  "save_intrinsics sp packet fp =
     (if \<not> intrinsics_saved fp \<and> truthy (camera_intrinsics packet) then
        fp\<lparr>captures :=
             in_session (captures fp) (last sp)
               (\<lambda>d. d\<lparr>intrinsics_json := Some (camera_intrinsics packet)\<rparr>),
           intrinsics_saved := True\<rparr>
      else fp)"

text \<open>The \<open>try\<close> block of \<open>process_frame\<close>: the result is \<open>False\<close> where a statement
  raises, and the state is the one reached at that statement.\<close>

definition process_frame_try :: "FramePacket \<Rightarrow> FrameProcessor \<Rightarrow> bool \<times> FrameProcessor" where
  "process_frame_try packet fp =
     (case stats fp of
        None \<Rightarrow> (False, fp)
      | Some st \<Rightarrow>
          let st1 = st\<lparr>frame_count := frame_count st + 1,
                       total_bytes := total_bytes st + length (frame_data packet),
                       last_frame_time := timestamp packet\<rparr>;
              fp1 = fp\<lparr>stats := Some st1\<rparr>
          in case latency_ms packet of
               Inl e \<Rightarrow> (False, fp1)
             | Inr lat \<Rightarrow>
                 let fp2 = fp1\<lparr>stats := Some (st1\<lparr>latencies := latencies st1 @ [lat]\<rparr>)\<rparr>
                 in case as_number (timestamp packet) of
                      None \<Rightarrow> (False, fp2)
                    | Some t \<Rightarrow>
                        let timestamp_str = fmt6 t;
                            frame_filename = timestamp_str @ ''.jpg''
                        in case session_path fp2 of
                             None \<Rightarrow> (False, fp2)
                           | Some sp \<Rightarrow>
                               let frame_path = sp @ [''rgb'', frame_filename];
                                   fp3 = fp2\<lparr>save_queue := save_queue fp2
                                               @ [(path_str frame_path, frame_data packet)]\<rparr>
                               in case write_imu timestamp_str packet fp3 of
                                    Inl e \<Rightarrow> (False, fp3)
                                  | Inr fp4 \<Rightarrow>
                                      (True,
                                       save_intrinsics sp packet
                                         (write_rgb_txt timestamp_str frame_filename fp4)))"

definition process_frame ::
  "string \<Rightarrow> real \<Rightarrow> FramePacket \<Rightarrow> FrameProcessor \<Rightarrow> (error + bool) \<times> FrameProcessor" where
  "process_frame stamp now packet fp =
     (if session_path fp = None then
        (case create_session stamp now None fp of
           (Inl e, fp1) \<Rightarrow> (Inl e, fp1)
         | (Inr sid, fp1) \<Rightarrow>
             (case process_frame_try packet fp1 of (ok, fp2) \<Rightarrow> (Inr ok, fp2)))
      else (case process_frame_try packet fp of (ok, fp2) \<Rightarrow> (Inr ok, fp2)))"

text \<open>\<open>clk i\<close> is the \<open>i\<close>-th reading of \<open>time.time()\<close> that \<open>get_stats\<close> can make, in
  program order: \<open>duration\<close>, then guard and division of \<open>fps\<close>, then guard and
  division of \<open>bandwidth_mbps\<close>.\<close>

definition get_stats :: "(nat \<Rightarrow> real) \<Rightarrow> FrameProcessor \<Rightarrow> error + dict" where
  "get_stats clk fp =
     (case stats fp of
        None \<Rightarrow> Inr []
      | Some s \<Rightarrow>
          try_bind (fps s (clk 1) (clk 2)) (\<lambda>f.
          try_bind (avg_latency_ms s) (\<lambda>l.
          try_bind (bandwidth_mbps s (clk 3) (clk 4)) (\<lambda>b.
            Inr [(''session_id'', JStr (session_id s)),
                 (''frame_count'', JNum (of_nat (frame_count s))),
                 (''duration_sec'', JNum (round2 (duration s (clk 0)))),
                 (''fps'', JNum (round2 f)),
                 (''avg_latency_ms'', JNum (round2 l)),
                 (''bandwidth_mbps'', JNum (round2 b)),
                 (''total_mb'', JNum (round2 (of_nat (total_bytes s) / (1024 * 1024)))),
                 (''queue_size'', JNum (of_nat (length (save_queue fp))))]))))"

text \<open>
  The loop \<open>while not self._save_queue.empty(): time.sleep(0.1)\<close>. The save worker runs
  in another thread: \<open>worker k\<close> is the number of items it takes off the queue during
  the \<open>k\<close>-th sleep (0 when it is stopped or was never started). The result is the
  number of sleeps; \<open>None\<close> means the loop never ends.
\<close>

partial_function (option) drain :: "(nat \<Rightarrow> nat) \<Rightarrow> nat \<Rightarrow> (string \<times> bytes) list \<Rightarrow> nat option" where
  "drain worker k q = (if q = [] then Some k else drain worker (Suc k) (drop (worker k) q))"

definition end_session ::
  "(nat \<Rightarrow> real) \<Rightarrow> (nat \<Rightarrow> nat) \<Rightarrow> FrameProcessor \<Rightarrow> ((error + dict) \<times> FrameProcessor) option" where
  "end_session clk worker fp =
     (case get_stats clk fp of
        Inl e \<Rightarrow> Some (Inl e, fp)
      | Inr st \<Rightarrow>
          (case drain worker 0 (save_queue fp) of
             None \<Rightarrow> None
           | Some k \<Rightarrow>
               let fp1 = close_files (fp\<lparr>save_queue := []\<rparr>);
                   fp2 = (case session_path fp1 of
                            None \<Rightarrow> fp1
                          | Some p \<Rightarrow>
                              fp1\<lparr>captures :=
                                    in_session (captures fp1) (last p)
                                      (\<lambda>d. d\<lparr>session_stats_json := Some (JObj st)\<rparr>)\<rparr>)
               in Some (Inr st,
                        fp2\<lparr>current_session := None, session_path := None, stats := None\<rparr>)))"

text \<open>\<open>rgb_dir.glob("*.jpg")\<close> over the names of a directory.\<close>

definition is_jpg :: "string \<Rightarrow> bool" where
  "is_jpg name = (4 \<le> length name \<and> drop (length name - 4) name = ''.jpg'')"

definition starts_with :: "string \<Rightarrow> string \<Rightarrow> bool" where
  "starts_with s pre = (take (length pre) s = pre)"






text \<open>
  The calls that reach the processor between two session boundaries: \<open>process_frame\<close>
  for a data message, \<open>get_stats\<close> for a \<open>get_status\<close> command or an
  acknowledgement. The results of the \<open>process_frame\<close> calls are collected in order.
\<close>

datatype call = ProcessFrame string real FramePacket | GetStats "nat \<Rightarrow> real"

fun run_calls :: "call list \<Rightarrow> FrameProcessor \<Rightarrow> (error + bool) list \<times> FrameProcessor" where
  "run_calls [] fp = ([], fp)"
| "run_calls (ProcessFrame stamp now packet # cs) fp =
     (case process_frame stamp now packet fp of
        (r, fp1) \<Rightarrow> (case run_calls cs fp1 of (rs, fp2) \<Rightarrow> (r # rs, fp2)))"
| "run_calls (GetStats clk # cs) fp = run_calls cs fp"

fun is_frame :: "call \<Rightarrow> bool" where
  "is_frame (ProcessFrame stamp now packet) = True"
| "is_frame (GetStats clk) = False"

text \<open>The latency sample a call appends, if any.\<close>

fun call_latency :: "call \<Rightarrow> real list" where
  "call_latency (ProcessFrame stamp now packet) =
     (case latency_ms packet of Inl e \<Rightarrow> [] | Inr l \<Rightarrow> [l])"
| "call_latency (GetStats clk) = []"




text \<open>The number of items the save worker takes off the queue during the \<open>n\<close> sleeps
  that start with sleep \<open>i\<close>.\<close>

fun removed :: "(nat \<Rightarrow> nat) \<Rightarrow> nat \<Rightarrow> nat \<Rightarrow> nat" where
  "removed worker i 0 = 0"
| "removed worker i (Suc n) = worker i + removed worker (Suc i) n"

text \<open>A processor with a session just created under the default id, and a data message
  captured at time \<open>t\<close> and received at time \<open>r\<close> with IMU record \<open>i\<close>.\<close>

definition example_session :: FrameProcessor where
  "example_session =
     snd (create_session ''20241222_153045'' 100 None (init_processor [''captures''] []))"

definition frame_at :: "real \<Rightarrow> real \<Rightarrow> json \<Rightarrow> call" where
  "frame_at t r i =
     ProcessFrame ''20241222_153045'' r
       \<lparr>timestamp = JNum t, frame_data = ''jpeg'', imu = i, camera_intrinsics = JObj [],
        received_at = r\<rparr>"

section \<open>config.py\<close>

definition MIN_FRAMES :: nat where
  "MIN_FRAMES = 30"

definition MAX_FRAME_GAP :: real where
  "MAX_FRAME_GAP = 0.5"

definition MAX_FRAME_GAP_ERROR :: real where
  "MAX_FRAME_GAP_ERROR = 2.0"

definition MIN_DURATION :: real where
  "MIN_DURATION = 3.0"

definition EXPECTED_IMU_RATIO :: nat where
  "EXPECTED_IMU_RATIO = 10"

section \<open>validate\_capture.py\<close>

text \<open>
  The messages of \<open>add_error\<close>, \<open>add_warning\<close> and \<open>add_info\<close>, one constructor for
  each message of the source, with the values its f-string interpolates as arguments.
\<close>

datatype issue =
    SessionPathMissing
  | NoRgbDir
  | NoFrames
  | TooFewFrames nat
  | NoTimestamps
  | CaptureTooShort real
  | LargeGapAt nat real
  | GapsExceeded nat
  | NotMonotonic
  | ResolutionChanged "int \<times> int" "int \<times> int"
  | ResolutionInconsistentAt nat
  | ImageReadError
  | ImuEmpty
  | LowImuRate real
  | ImuStartsLate
  | ImuEndsEarly
  | ImuReadError
  | NoImuFile
  | MissingIntrinsicFields "string list"
  | IntrinsicsResolutionMismatch json json int int
  | IntrinsicsReadError
  | NoIntrinsics
  | RgbTxtCountMismatch nat nat
  | RgbTxtReadError
  | NoRgbTxt
  | ConsiderHigherFps
  | HighFps
  | LargeCapture
  | ShortCapture

text \<open>
  The fields of the dataclass; \<open>v_session_id\<close> and \<open>v_frame_count\<close> are its
  \<open>session_id\<close> and \<open>frame_count\<close>. \<open>score_log\<close> is an auxiliary field the source
  does not have: it records every value \<open>quality_score\<close> has held, oldest first, and
  nothing reads it.
\<close>

record ValidationResult =
  v_session_id :: string
  is_valid :: bool
  quality_score :: int
  v_frame_count :: nat
  duration_sec :: real
  avg_fps :: real
  min_fps :: real
  max_fps :: real
  width :: int
  height :: int
  resolution_consistent :: bool
  imu_records :: nat
  imu_synced :: bool
  imu_avg_offset_ms :: real
  has_intrinsics :: bool
  intrinsics :: json
  errors :: "issue list"
  warnings :: "issue list"
  info :: "issue list"
  score_log :: "int list"

definition new_result :: "string \<Rightarrow> ValidationResult" where
  "new_result sid =
     \<lparr>v_session_id = sid, is_valid = True, quality_score = 100, v_frame_count = 0,
      duration_sec = 0, avg_fps = 0, min_fps = 0, max_fps = 0, width = 0, height = 0,
      resolution_consistent = True, imu_records = 0, imu_synced = True,
      imu_avg_offset_ms = 0, has_intrinsics = False, intrinsics = JObj [],
      errors = [], warnings = [], info = [], score_log = [100]\<rparr>"

definition add_error :: "issue \<Rightarrow> int \<Rightarrow> ValidationResult \<Rightarrow> ValidationResult" where
  "add_error msg penalty r =
     r\<lparr>errors := errors r @ [msg],
       quality_score := max 0 (quality_score r - penalty),
       is_valid := False,
       score_log := score_log r @ [max 0 (quality_score r - penalty)]\<rparr>"

definition add_warning :: "issue \<Rightarrow> int \<Rightarrow> ValidationResult \<Rightarrow> ValidationResult" where
  "add_warning msg penalty r =
     r\<lparr>warnings := warnings r @ [msg],
       quality_score := max 0 (quality_score r - penalty),
       score_log := score_log r @ [max 0 (quality_score r - penalty)]\<rparr>"

definition add_info :: "issue \<Rightarrow> ValidationResult \<Rightarrow> ValidationResult" where
  "add_info msg r = r\<lparr>info := info r @ [msg]\<rparr>"

text \<open>\<open>Path(filename).stem\<close>: the name without its last suffix; a dot that starts or
  ends the name begins no suffix.\<close>

definition stem :: "string \<Rightarrow> string" where
  "stem name =
     (let k = length (takeWhile (\<lambda>c. c \<noteq> CHR ''.'') (rev name))
      in if k < length name \<and> 0 < k \<and> 0 < length name - k - 1
         then take (length name - k - 1) name else name)"

text \<open>
  \<open>float\<close> is Python's built-in conversion of a string, a parameter of the model:
  \<open>None\<close> where it raises \<open>ValueError\<close>.
\<close>

definition parse_timestamp :: "(string \<Rightarrow> real option) \<Rightarrow> string \<Rightarrow> real" where
  "parse_timestamp float filename =
     (case float (stem filename) of Some x \<Rightarrow> x | None \<Rightarrow> 0)"

text \<open>\<open>float\<close> on the plain decimal literals, sign, digits, point, digits, with a
  digit on at least one side of the point; the instance of the parameter used for
  concrete file names.\<close>

definition digit_value :: "char \<Rightarrow> nat option" where
  "digit_value c = map_of (zip ''0123456789'' [0, 1, 2, 3, 4, 5, 6, 7, 8, 9]) c"

fun digits_value :: "nat \<Rightarrow> string \<Rightarrow> nat option" where
  "digits_value acc [] = Some acc"
| "digits_value acc (c # cs) =
     (case digit_value c of None \<Rightarrow> None | Some d \<Rightarrow> digits_value (10 * acc + d) cs)"

definition unsigned_decimal :: "string \<Rightarrow> real option" where
  "unsigned_decimal s =
     (let ip = takeWhile (\<lambda>c. c \<noteq> CHR ''.'') s;
          rest = dropWhile (\<lambda>c. c \<noteq> CHR ''.'') s;
          fp = drop 1 rest
      in if ip = [] \<and> fp = [] then None
         else case (digits_value 0 ip, digits_value 0 fp) of
                (Some i, Some f) \<Rightarrow> Some (of_nat i + of_nat f / 10 ^ length fp)
              | _ \<Rightarrow> None)"

definition decimal_float :: "string \<Rightarrow> real option" where
  "decimal_float s =
     (case s of
        [] \<Rightarrow> None
      | c # cs \<Rightarrow>
          if c = CHR ''-'' then map_option uminus (unsigned_decimal cs)
          else if c = CHR ''+'' then unsigned_decimal cs
          else unsigned_decimal s)"

text \<open>
  A session directory as \<open>validate_session\<close> reads it: the entries of \<open>rgb/\<close> with
  the size \<open>Image.open\<close> reports for each (\<open>None\<close> where it raises), the rows of
  \<open>imu.csv\<close>, the JSON document in \<open>intrinsics.json\<close> and the lines of \<open>rgb.txt\<close>.
  A file that exists but cannot be opened or decoded is \<open>Unreadable\<close>.
\<close>

datatype 'a file_content = Missing | Unreadable | Content 'a

record session_dir =
  sd_name :: string
  sd_exists :: bool
  sd_rgb :: "(string \<times> (int \<times> int) option) list option"
  sd_imu_csv :: "string list list file_content"
  sd_intrinsics :: "json file_content"
  sd_rgb_txt :: "string list file_content"

text \<open>The loop over consecutive timestamps; \<open>i\<close> is the index of the later frame.\<close>

fun check_gaps ::
  "nat \<Rightarrow> real list \<Rightarrow> real list \<times> nat \<times> ValidationResult \<Rightarrow> real list \<times> nat \<times> ValidationResult" where
  "check_gaps i (a # b # ts) (fps_values, large_gaps, r) =
     (let gap = b - a;
          fps_values' = (if 0 < gap then fps_values @ [1 / gap] else fps_values)
      in if MAX_FRAME_GAP_ERROR < gap then
           check_gaps (i + 1) (b # ts)
             (fps_values', large_gaps + 1, add_warning (LargeGapAt i gap) 5 r)
         else if MAX_FRAME_GAP < gap then
           check_gaps (i + 1) (b # ts) (fps_values', large_gaps + 1, r)
         else check_gaps (i + 1) (b # ts) (fps_values', large_gaps, r))"
| "check_gaps i ts acc = acc"

fun is_monotonic :: "real list \<Rightarrow> bool" where
  "is_monotonic (a # b # ts) = (a \<le> b \<and> is_monotonic (b # ts))"
| "is_monotonic ts = True"

text \<open>\<open>min\<close> and \<open>max\<close> of a list that is not empty.\<close>

fun py_min :: "real list \<Rightarrow> real" where
  "py_min [] = 0"
| "py_min (x # xs) = fold min xs x"

fun py_max :: "real list \<Rightarrow> real" where
  "py_max [] = 0"
| "py_max (x # xs) = fold max xs x"

text \<open>The block ``Duration and FPS'', for at least two timestamps.\<close>

definition duration_and_fps :: "real list \<Rightarrow> ValidationResult \<Rightarrow> ValidationResult" where
  "duration_and_fps timestamps result =
     (let result = result\<lparr>duration_sec := last timestamps - hd timestamps\<rparr>;
          result = (if duration_sec result < MIN_DURATION
                    then add_error (CaptureTooShort (duration_sec result)) 20 result
                    else result)
      in if 0 < duration_sec result
         then result\<lparr>avg_fps := of_nat (v_frame_count result) / duration_sec result\<rparr>
         else result)"

text \<open>The block ``Check for gaps and calculate per-frame FPS''.\<close>

definition gaps_and_fps :: "real list \<Rightarrow> ValidationResult \<Rightarrow> ValidationResult" where
  "gaps_and_fps timestamps result =
     (case check_gaps 1 timestamps ([], 0, result) of
        (fps_values, large_gaps, result) \<Rightarrow>
          let result = (if fps_values \<noteq> []
                        then result\<lparr>min_fps := py_min fps_values, max_fps := py_max fps_values\<rparr>
                        else result)
          in if 0 < large_gaps then add_warning (GapsExceeded large_gaps) 5 result
             else result)"

text \<open>The block ``Check timestamps are monotonic''.\<close>

definition check_monotonic :: "real list \<Rightarrow> ValidationResult \<Rightarrow> ValidationResult" where
  "check_monotonic timestamps result =
     (if \<not> is_monotonic timestamps then add_error NotMonotonic 30 result else result)"

definition validate_timing :: "real list \<Rightarrow> ValidationResult \<Rightarrow> ValidationResult" where
  "validate_timing timestamps result =
     check_monotonic timestamps (gaps_and_fps timestamps (duration_and_fps timestamps result))"

text \<open>The sampled frames; an image that cannot be opened ends the \<open>try\<close> block with
  the error of its \<open>except\<close> clause. The block runs with at least one frame, and the
  sampled indices lie below the number of frames.\<close>

fun check_samples ::
  "(string \<Rightarrow> (int \<times> int) option) \<Rightarrow> string list \<Rightarrow> int \<times> int \<Rightarrow> nat list
     \<Rightarrow> ValidationResult \<Rightarrow> ValidationResult" where
  "check_samples size_of frames first [] r = r"
| "check_samples size_of frames first (idx # idxs) r =
     (case size_of (frames ! idx) of
        None \<Rightarrow> add_error ImageReadError 20 r
      | Some sz \<Rightarrow>
          if sz \<noteq> first then
            add_warning (ResolutionInconsistentAt idx) 5 (r\<lparr>resolution_consistent := False\<rparr>)
          else check_samples size_of frames first idxs r)"

definition validate_images ::
  "(string \<times> (int \<times> int) option) list \<Rightarrow> string list \<Rightarrow> ValidationResult \<Rightarrow> ValidationResult" where
  "validate_images entries frames result =
     (let size_of = (\<lambda>name. case map_of entries name of Some (Some sz) \<Rightarrow> Some sz | _ \<Rightarrow> None)
      in case size_of (hd frames) of
           None \<Rightarrow> add_error ImageReadError 20 result
         | Some first \<Rightarrow>
             let result = result\<lparr>width := fst first, height := snd first\<rparr>
             in case (if 1 < length frames then size_of (last frames) else Some first) of
                  None \<Rightarrow> add_error ImageReadError 20 result
                | Some lst \<Rightarrow>
                    let result = (if 1 < length frames \<and> lst \<noteq> first
                                  then add_warning (ResolutionChanged first lst) 10
                                         (result\<lparr>resolution_consistent := False\<rparr>)
                                  else result)
                    in if 20 < length frames then
                         check_samples size_of frames first
                           [length frames div 4, length frames div 2, 3 * length frames div 4]
                           result
                       else result)"

definition validate_imu ::
  "(string \<Rightarrow> real option) \<Rightarrow> string list list file_content \<Rightarrow> real list
     \<Rightarrow> ValidationResult \<Rightarrow> ValidationResult" where
  "validate_imu float csv timestamps result =
     (case csv of
        Missing \<Rightarrow> (add_warning NoImuFile 15 result)\<lparr>imu_synced := False\<rparr>
      | Unreadable \<Rightarrow> add_warning ImuReadError 10 result
      | Content rows \<Rightarrow>
          let imu_rows = drop 1 rows;
              result = result\<lparr>imu_records := length imu_rows\<rparr>
          in if imu_records result = 0 then add_warning ImuEmpty 10 result
             else
               let ratio = of_nat (imu_records result) / of_nat (max 1 (v_frame_count result));
                   result = (if ratio < 1 then add_warning (LowImuRate ratio) 5 result
                             else result)
               in case those (map (\<lambda>row. float (hd row)) (filter (\<lambda>row. row \<noteq> []) imu_rows)) of
                    None \<Rightarrow> add_warning ImuReadError 10 result
                  | Some imu_timestamps \<Rightarrow>
                      if imu_timestamps \<noteq> [] then
                        let imu_start = py_min imu_timestamps;
                            imu_end = py_max imu_timestamps;
                            frame_start = hd timestamps;
                            frame_end = last timestamps;
                            result = (if frame_start + 1 < imu_start
                                      then add_warning ImuStartsLate 5 result else result);
                            result = (if imu_end < frame_end - 1
                                      then add_warning ImuEndsEarly 5 result else result)
                        in result\<lparr>imu_avg_offset_ms := \<bar>imu_start - frame_start\<bar> * 1000\<rparr>
                      else result)"

text \<open>\<open>k in x\<close> for a string \<open>k\<close>: a key of a dict, an element of a list, a substring
  of a string; other values are not containers.\<close>

definition is_substring :: "string \<Rightarrow> string \<Rightarrow> bool" where
  "is_substring k s = list_ex (\<lambda>n. take (length k) (drop n s) = k) [0..<Suc (length s)]"

fun py_in :: "string \<Rightarrow> json \<Rightarrow> error + bool" where
  "py_in k (JObj kvs) = Inr (map_of kvs k \<noteq> None)"
| "py_in k (JArr xs) = Inr (JStr k \<in> set xs)"
| "py_in k (JStr s) = Inr (is_substring k s)"
| "py_in k _ = Inl TypeError"

fun missing_keys :: "string list \<Rightarrow> json \<Rightarrow> error + string list" where
  "missing_keys [] j = Inr []"
| "missing_keys (k # ks) j =
     try_bind (py_in k j) (\<lambda>present.
     try_bind (missing_keys ks j) (\<lambda>rest. Inr (if present then rest else k # rest)))"

text \<open>\<open>x != n\<close> for an integer \<open>n\<close>.\<close>

definition py_ne_int :: "json \<Rightarrow> int \<Rightarrow> bool" where
  "py_ne_int x n = (case as_number x of Some v \<Rightarrow> v \<noteq> of_int n | None \<Rightarrow> True)"

definition validate_intrinsics :: "json file_content \<Rightarrow> ValidationResult \<Rightarrow> ValidationResult" where
  "validate_intrinsics intr result =
     (case intr of
        Missing \<Rightarrow> add_warning NoIntrinsics 15 result
      | Unreadable \<Rightarrow> add_warning IntrinsicsReadError 10 result
      | Content j \<Rightarrow>
          let result = result\<lparr>intrinsics := j, has_intrinsics := True\<rparr>
          in case missing_keys [''fx'', ''fy'', ''cx'', ''cy'', ''width'', ''height''] j of
               Inl e \<Rightarrow> add_warning IntrinsicsReadError 10 result
             | Inr missing \<Rightarrow>
                 let result = (if missing \<noteq> []
                               then add_warning (MissingIntrinsicFields missing) 5 result
                               else result)
                 in if has_intrinsics result \<and> 0 < width result then
                      (case try_bind (py_get j ''width'' (JNum 0)) (\<lambda>intr_w.
                            try_bind (py_get j ''height'' (JNum 0)) (\<lambda>intr_h.
                              Inr (intr_w, intr_h))) of
                         Inl e \<Rightarrow> add_warning IntrinsicsReadError 10 result
                       | Inr (intr_w, intr_h) \<Rightarrow>
                           if py_ne_int intr_w (width result) \<or> py_ne_int intr_h (height result)
                           then add_warning
                                  (IntrinsicsResolutionMismatch intr_w intr_h
                                     (width result) (height result)) 10 result
                           else result)
                    else result)"

text \<open>\<open>l.strip()\<close> on ASCII: tab to carriage return, the four separators and space.\<close>

definition is_space :: "char \<Rightarrow> bool" where
  "is_space c = (let n = (of_char c :: nat) in (9 \<le> n \<and> n \<le> 13) \<or> (28 \<le> n \<and> n \<le> 32))"

definition strip :: "string \<Rightarrow> string" where
  "strip s = rev (dropWhile is_space (rev (dropWhile is_space s)))"

definition validate_rgb_txt :: "string list file_content \<Rightarrow> ValidationResult \<Rightarrow> ValidationResult" where
  "validate_rgb_txt txt result =
     (case txt of
        Missing \<Rightarrow> add_warning NoRgbTxt 5 result
      | Unreadable \<Rightarrow> add_warning RgbTxtReadError 5 result
      | Content ls \<Rightarrow>
          let lines = map strip (filter (\<lambda>l. strip l \<noteq> [] \<and> \<not> starts_with l ''#'') ls)
          in if length lines \<noteq> v_frame_count result
             then add_warning (RgbTxtCountMismatch (length lines) (v_frame_count result)) 5 result
             else result)"

definition recommendations :: "ValidationResult \<Rightarrow> ValidationResult" where
  "recommendations result =
     (let result = (if avg_fps result < 8 then add_info ConsiderHigherFps result else result);
          result = (if 20 < avg_fps result then add_info HighFps result else result);
          result = (if 500 < v_frame_count result then add_info LargeCapture result else result)
      in if duration_sec result < 10 then add_info ShortCapture result else result)"

text \<open>The file names \<open>rgb_dir.glob("*.jpg")\<close> yields, sorted as paths are: by code
  point.\<close>

definition sorted_frames :: "(string \<times> (int \<times> int) option) list \<Rightarrow> string list" where
  "sorted_frames entries = sort (filter is_jpg (map fst entries))"

text \<open>The timestamps kept for the timestamp-derived checks.\<close>

definition parse_timestamps :: "(string \<Rightarrow> real option) \<Rightarrow> string list \<Rightarrow> real list" where
  "parse_timestamps float frames = filter (\<lambda>ts. 0 < ts) (map (parse_timestamp float) frames)"

definition validate_session :: "(string \<Rightarrow> real option) \<Rightarrow> session_dir \<Rightarrow> ValidationResult" where
  "validate_session float sd =
     (let result = new_result (sd_name sd)
      in if \<not> sd_exists sd then add_error SessionPathMissing 100 result
         else case sd_rgb sd of
                None \<Rightarrow> add_error NoRgbDir 100 result
              | Some entries \<Rightarrow>
                  let frames = sorted_frames entries;
                      result = result\<lparr>v_frame_count := length frames\<rparr>
                  in if v_frame_count result = 0 then add_error NoFrames 100 result
                     else
                       let result = (if v_frame_count result < MIN_FRAMES
                                     then add_error (TooFewFrames (v_frame_count result)) 30 result
                                     else result);
                           timestamps = parse_timestamps float frames
                       in if length timestamps < 2 then add_error NoTimestamps 50 result
                          else
                            recommendations
                              (validate_rgb_txt (sd_rgb_txt sd)
                                (validate_intrinsics (sd_intrinsics sd)
                                  (validate_imu float (sd_imu_csv sd) timestamps
                                    (validate_images entries frames
                                      (validate_timing timestamps result))))))"


text \<open>
  What every result of the validation satisfies: \<open>is_valid\<close> is set exactly when no
  error was recorded, the score lies between 0 and 100, and so does every value it has
  held, one for each error and warning recorded, starting at 100.
\<close>

definition consistent :: "ValidationResult \<Rightarrow> bool" where
  "consistent r =
     ((is_valid r \<longleftrightarrow> errors r = []) \<and> 0 \<le> quality_score r \<and> quality_score r \<le> 100
      \<and> score_log r \<noteq> [] \<and> hd (score_log r) = 100 \<and> last (score_log r) = quality_score r
      \<and> list_all (\<lambda>x. 0 \<le> x \<and> x \<le> 100) (score_log r)
      \<and> length (score_log r) = 1 + length (errors r) + length (warnings r))"


text \<open>The list \<open>gaps\<close> the loop over consecutive timestamps builds.\<close>

fun gaps :: "real list \<Rightarrow> real list" where
  "gaps (a # b # ts) = (b - a) # gaps (b # ts)"
| "gaps ts = []"

text \<open>A session directory that holds nothing but readable frames of one size, under the
  given names in the order \<open>glob\<close> yields them.\<close>

definition frames_only :: "string list \<Rightarrow> session_dir" where
  "frames_only names =
     \<lparr>sd_name = ''session_20241222_153045'', sd_exists = True,
      sd_rgb = Some (map (\<lambda>n. (n, Some (720, 1280))) names),
      sd_imu_csv = Missing, sd_intrinsics = Missing, sd_rgb_txt = Missing\<rparr>"

text \<open>The warnings about gaps between frames.\<close>

fun gap_warning :: "issue \<Rightarrow> bool" where
  "gap_warning (LargeGapAt i gap) = True"
| "gap_warning (GapsExceeded n) = True"
| "gap_warning w = False"


section \<open>Properties of the frame processor\<close>


lemma write_imu_keeps:
  "write_imu ts p fp = Inr fp' \<Longrightarrow>
     stats fp' = stats fp \<and> session_path fp' = session_path fp \<and> save_queue fp' = save_queue fp
     \<and> rgb_txt_file fp' = rgb_txt_file fp \<and> intrinsics_saved fp' = intrinsics_saved fp
     \<and> imu_file fp' = imu_file fp \<and> current_session fp' = current_session fp \<and> base_dir fp' = base_dir fp"
  by (auto simp: write_imu_def try_bind_def split: option.splits if_splits sum.splits)

lemma write_rgb_txt_keeps:
  "stats (write_rgb_txt ts fn fp) = stats fp \<and> session_path (write_rgb_txt ts fn fp) = session_path fp
   \<and> save_queue (write_rgb_txt ts fn fp) = save_queue fp
   \<and> imu_file (write_rgb_txt ts fn fp) = imu_file fp
   \<and> rgb_txt_file (write_rgb_txt ts fn fp) = rgb_txt_file fp
   \<and> current_session (write_rgb_txt ts fn fp) = current_session fp
   \<and> base_dir (write_rgb_txt ts fn fp) = base_dir fp"
  by (simp add: write_rgb_txt_def split: option.splits)

lemma save_intrinsics_keeps:
  "stats (save_intrinsics sp p fp) = stats fp \<and> session_path (save_intrinsics sp p fp) = session_path fp
   \<and> save_queue (save_intrinsics sp p fp) = save_queue fp
   \<and> imu_file (save_intrinsics sp p fp) = imu_file fp
   \<and> rgb_txt_file (save_intrinsics sp p fp) = rgb_txt_file fp
   \<and> current_session (save_intrinsics sp p fp) = current_session fp
   \<and> base_dir (save_intrinsics sp p fp) = base_dir fp"
  by (simp add: save_intrinsics_def)

lemma process_frame_try_session_path:
  "session_path (snd (process_frame_try p fp)) = session_path fp"
  by (auto simp: process_frame_try_def Let_def write_rgb_txt_keeps save_intrinsics_keeps
           dest: write_imu_keeps split: option.splits sum.splits)

lemma process_frame_try_stats:
  assumes "stats fp = Some s"
  shows "stats (snd (process_frame_try p fp)) =
           Some (s\<lparr>frame_count := frame_count s + 1,
                   total_bytes := total_bytes s + length (frame_data p),
                   last_frame_time := timestamp p,
                   latencies := latencies s @ (case latency_ms p of Inl e \<Rightarrow> [] | Inr l \<Rightarrow> [l])\<rparr>)"
  using assms
  by (auto simp: process_frame_try_def Let_def write_rgb_txt_keeps save_intrinsics_keeps
           dest: write_imu_keeps split: option.splits sum.splits)

lemma process_frame_in_session:
  assumes "session_path fp \<noteq> None"
  shows "process_frame stamp now p fp =
           (Inr (fst (process_frame_try p fp)), snd (process_frame_try p fp))"
  using assms by (cases "process_frame_try p fp") (auto simp: process_frame_def)

lemma run_calls_in_session:
  assumes "session_path fp \<noteq> None" and "stats fp = Some s"
  shows "session_path (snd (run_calls cs fp)) = session_path fp \<and>
         (\<exists>s'. stats (snd (run_calls cs fp)) = Some s' \<and>
               frame_count s' = frame_count s + length (filter is_frame cs) \<and>
               latencies s' = latencies s @ concat (map call_latency cs) \<and>
               session_id s' = session_id s \<and> start_time s' = start_time s)"
  using assms
proof (induction cs arbitrary: fp s)
  case Nil
  then show ?case by simp
next
  case (Cons c cs)
  show ?case
  proof (cases c)
    case (ProcessFrame stamp now p)
    let ?fp1 = "snd (process_frame_try p fp)"
    have sp: "session_path ?fp1 \<noteq> None"
      using Cons.prems(1) by (simp add: process_frame_try_session_path)
    note st = process_frame_try_stats[OF Cons.prems(2), of p]
    from Cons.IH[OF sp st]
    show ?thesis
      using Cons.prems(1) ProcessFrame
      by (auto simp: process_frame_in_session process_frame_try_session_path split: prod.splits)
  next
    case (GetStats clk)
    with Cons show ?thesis by simp
  qed
qed


lemma last100_short: "length xs \<le> 100 \<Longrightarrow> last100 xs = xs"
  by (simp add: last100_def)




lemma drain_enough:
  "length q \<le> removed worker i n \<Longrightarrow> \<exists>k. drain worker i q = Some k"
proof (induction n arbitrary: i q)
  case 0
  then show ?case by (simp add: drain.simps)
next
  case (Suc n)
  show ?case
  proof (cases "q = []")
    case True
    then show ?thesis by (simp add: drain.simps)
  next
    case False
    have "length (drop (worker i) q) \<le> removed worker (Suc i) n"
      using Suc.prems by simp
    from Suc.IH[OF this] show ?thesis
      using False by (subst drain.simps) simp
  qed
qed

lemma drain_returns:
  assumes "drain worker i q = Some k"
  shows "i \<le> k \<and> length q \<le> removed worker i (k - i)"
proof (rule drain.raw_induct
    [where P = "\<lambda>w i q k. i \<le> k \<and> length q \<le> removed w i (k - i)", OF _ assms])
  fix dr :: "(nat \<Rightarrow> nat) \<Rightarrow> nat \<Rightarrow> (string \<times> bytes) list \<Rightarrow> nat option"
  fix w k and q :: "(string \<times> bytes) list" and y
  assume IH: "\<And>w' k' q' y'. dr w' k' q' = Some y' \<Longrightarrow>
                k' \<le> y' \<and> length q' \<le> removed w' k' (y' - k')"
    and eq: "(if q = [] then Some k else dr w (Suc k) (drop (w k) q)) = Some y"
  show "k \<le> y \<and> length q \<le> removed w k (y - k)"
  proof (cases "q = []")
    case True
    with eq show ?thesis by simp
  next
    case False
    with eq have d: "dr w (Suc k) (drop (w k) q) = Some y" by simp
    from IH[OF d] have le: "Suc k \<le> y"
      and len: "length q - w k \<le> removed w (Suc k) (y - Suc k)" by simp_all
    have "y - k = Suc (y - Suc k)" using le by simp
    then show ?thesis using le len by simp
  qed
qed

lemma removed_stalled: "removed (\<lambda>k. 0) i n = 0"
  by (induction n arbitrary: i) simp_all

lemma drain_stalled: "q \<noteq> [] \<Longrightarrow> drain (\<lambda>k. 0) i q = None"
proof (rule ccontr)
  assume q: "q \<noteq> []" and "drain (\<lambda>k. 0) i q \<noteq> None"
  then obtain k where "drain (\<lambda>k. 0) i q = Some k" by auto
  from drain_returns[OF this] show False using q by (simp add: removed_stalled)
qed



lemma last100_length: "length (last100 xs) = min 100 (length xs)"
  by (simp add: last100_def)

lemma last100_nonempty: "xs \<noteq> [] \<Longrightarrow> last100 xs \<noteq> []"
  by (cases xs) (auto simp: last100_def)

lemma avg_latency_ms_value:
  "avg_latency_ms s =
     Inr (if latencies s = [] then 0
          else sum_list (last100 (latencies s)) / of_nat (min 100 (length (latencies s))))"
  using last100_nonempty[of "latencies s"]
  by (simp add: avg_latency_ms_def Let_def last100_length)

lemma create_session_ok:
  assumes "create_session stamp now sid fp0 = (Inr i, fp)"
  shows "session_path fp = Some (base_dir fp0 @ [i]) \<and> stats fp = Some (new_stats i now)
         \<and> current_session fp = Some i \<and> base_dir fp = base_dir fp0"
  using assms
  by (auto simp: create_session_def Let_def open_files_def close_files_def split: sum.splits)

lemma example_session_state:
  "session_path example_session = Some [''captures'', ''session_20241222_153045''] \<and>
   stats example_session = Some (new_stats ''session_20241222_153045'' 100)"
  by (simp add: example_session_def create_session_def init_processor_def close_files_def
        mkdir_rgb_def open_files_def in_session_def Let_def)









lemma run_calls_results_length: "length (fst (run_calls cs fp)) = length (filter is_frame cs)"
proof (induction cs arbitrary: fp)
  case Nil
  then show ?case by simp
next
  case (Cons c cs)
  show ?case
  proof (cases c)
    case (ProcessFrame stamp now p)
    obtain r fp1 where pf: "process_frame stamp now p fp = (r, fp1)" by fastforce
    obtain rs fp2 where rc: "run_calls cs fp1 = (rs, fp2)" by fastforce
    have "length rs = length (filter is_frame cs)" using Cons.IH[of fp1] rc by simp
    then show ?thesis using ProcessFrame pf rc by simp
  next
    case (GetStats clk)
    then show ?thesis using Cons.IH by simp
  qed
qed

text \<open>
  C2 (amended). \<open>process_frame\<close> increments \<open>frame_count\<close> before any statement that
  can fail, so after any sequence of calls in a session, interleaved with \<open>get_stats\<close>,
  \<open>frame_count\<close> is the number of \<open>process_frame\<close> calls made since the session was
  created, whether they returned \<open>True\<close> or \<open>False\<close>; the number of calls that returned
  \<open>True\<close> never exceeds it.
\<close>

theorem frame_count_counts_calls:
  assumes "create_session stamp now sid fp0 = (Inr i, fp)"
  shows "\<exists>s'. stats (snd (run_calls cs fp)) = Some s'
            \<and> frame_count s' = length (filter is_frame cs)
            \<and> length (filter (\<lambda>r. r = Inr True) (fst (run_calls cs fp))) \<le> frame_count s'"
proof -
  from create_session_ok[OF assms]
  have sp: "session_path fp \<noteq> None" and st: "stats fp = Some (new_stats i now)" by simp_all
  from run_calls_in_session[OF sp st, of cs] obtain s' where
    s': "stats (snd (run_calls cs fp)) = Some s'"
    and fc: "frame_count s' = frame_count (new_stats i now) + length (filter is_frame cs)"
    by blast
  have "length (filter (\<lambda>r. r = Inr True) (fst (run_calls cs fp)))
          \<le> length (fst (run_calls cs fp))"
    by (rule length_filter_le)
  with s' fc show ?thesis by (simp add: new_stats_def run_calls_results_length)
qed

lemma example_session_create:
  "create_session ''20241222_153045'' 100 None (init_processor [''captures''] [])
     = (Inr ''session_20241222_153045'', example_session)"
  by (simp add: example_session_def create_session_def init_processor_def close_files_def
        mkdir_rgb_def open_files_def in_session_def Let_def)

lemma digits_of_small: "n < 10 \<Longrightarrow> digits_of n = [digit_char n]"
  by (simp add: digits_of.simps)

lemma digits_of_large:
  "\<not> n < 10 \<Longrightarrow> digits_of n = digits_of (n div 10) @ [digit_char (n mod 10)]"
  by (subst digits_of.simps) simp

lemma replicate_numeral: "replicate (numeral k) x = x # replicate (pred_numeral k) x"
  by (simp add: numeral_eq_Suc)

lemma round_half_even_of_int: "round_half_even (of_int n) = n"
  by (simp add: round_half_even_def)

lemma fmt6_2: "fmt6 2 = ''2.000000''"
  using round_half_even_of_int[of 2000000]
  by (simp add: fmt6_def digits_of_small digits_of_large digit_char_def replicate_numeral)

lemma bad_imu_row: "imu_row ts (JObj [(''accel'', JArr [JNum 1, JNum 2])]) = Inl IndexError"
  by (simp add: imu_row_def try_bind_def)

lemma example_session_value:
  "example_session =
     \<lparr>base_dir = [''captures''], current_session = Some ''session_20241222_153045'',
      session_path = Some [''captures'', ''session_20241222_153045''],
      stats = Some (new_stats ''session_20241222_153045'' 100),
      save_queue = [], running = False,
      imu_file = Some [''captures'', ''session_20241222_153045''],
      rgb_txt_file = Some [''captures'', ''session_20241222_153045''],
      intrinsics_saved = False,
      captures = [(''session_20241222_153045'',
                   Dir \<lparr>rgb_dir = Some [], imu_csv = Some [imu_header],
                        rgb_txt = Some [''# timestamp filename''], intrinsics_json = None,
                        session_stats_json = None\<rparr>)]\<rparr>"
  by (simp add: example_session_def create_session_def init_processor_def close_files_def
        mkdir_rgb_def open_files_def in_session_def empty_session_def Let_def)

lemma example_try:
  "process_frame_try
     \<lparr>timestamp = JNum 2, frame_data = ''jpeg'',
      imu = JObj [(''accel'', JArr [JNum 1, JNum 2])], camera_intrinsics = JObj [],
      received_at = 3\<rparr> example_session
   = (False, example_session
        \<lparr>stats := Some ((new_stats ''session_20241222_153045'' 100)
                          \<lparr>frame_count := 1, total_bytes := 4, last_frame_time := JNum 2,
                           latencies := [1000]\<rparr>),
         save_queue := [(''captures/session_20241222_153045/rgb/2.000000.jpg'', ''jpeg'')]\<rparr>)"
  by (simp add: process_frame_try_def example_session_value latency_ms_def Let_def
      fmt6_2 write_imu_def bad_imu_row try_bind_def new_stats_def)

lemma example_run:
  "run_calls [frame_at 2 3 (JObj [(''accel'', JArr [JNum 1, JNum 2])])] example_session
   = ([Inr False], example_session
        \<lparr>stats := Some ((new_stats ''session_20241222_153045'' 100)
                          \<lparr>frame_count := 1, total_bytes := 4, last_frame_time := JNum 2,
                           latencies := [1000]\<rparr>),
         save_queue := [(''captures/session_20241222_153045/rgb/2.000000.jpg'', ''jpeg'')]\<rparr>)"
  by (simp add: frame_at_def process_frame_def example_session_state example_try)

text \<open>
  C2, witness: a session created under the default id and one frame.
\<close>

theorem frame_count_counts_calls_witness:
  "create_session ''20241222_153045'' 100 None (init_processor [''captures''] [])
     = (Inr ''session_20241222_153045'', example_session) \<and>
   (\<exists>s'. stats (snd (run_calls [frame_at 2 3 (JObj [(''accel'', JArr [JNum 1, JNum 2])])]
                      example_session)) = Some s' \<and> frame_count s' = 1)"
proof -
  from frame_count_counts_calls[OF example_session_create,
          of "[frame_at 2 3 (JObj [(''accel'', JArr [JNum 1, JNum 2])])]"]
  obtain s' where
    "stats (snd (run_calls [frame_at 2 3 (JObj [(''accel'', JArr [JNum 1, JNum 2])])]
                  example_session)) = Some s'"
    and "frame_count s' = length (filter is_frame [frame_at 2 3 (JObj [(''accel'', JArr [JNum 1, JNum 2])])])"
    by blast
  then show ?thesis by (auto simp: example_session_create frame_at_def)
qed

text \<open>
  C2, counterexample to the claim that \<open>frame_count\<close> equals the number of successful
  calls: a frame whose IMU record has an \<open>accel\<close> array of two elements. \<open>accel[2]\<close>
  raises after the counters are updated, \<open>process_frame\<close> returns \<open>False\<close>, and
  \<open>frame_count\<close> is 1.
\<close>

theorem frame_count_successes_counterexample:
  "fst (run_calls [frame_at 2 3 (JObj [(''accel'', JArr [JNum 1, JNum 2])])] example_session)
     = [Inr False] \<and>
   map_option frame_count
     (stats (snd (run_calls [frame_at 2 3 (JObj [(''accel'', JArr [JNum 1, JNum 2])])]
                    example_session))) = Some 1"
  by (simp add: example_run)



lemma example_good_run:
  "run_calls [frame_at 2 3 (JObj [])] example_session
   = ([Inr True], example_session
        \<lparr>stats := Some ((new_stats ''session_20241222_153045'' 100)
                          \<lparr>frame_count := 1, total_bytes := 4, last_frame_time := JNum 2,
                           latencies := [1000]\<rparr>),
         save_queue := [(''captures/session_20241222_153045/rgb/2.000000.jpg'', ''jpeg'')],
         captures := [(''session_20241222_153045'',
                   Dir \<lparr>rgb_dir = Some [], imu_csv = Some [imu_header],
                        rgb_txt = Some [''# timestamp filename'',
                                        ''2.000000 rgb/2.000000.jpg''],
                        intrinsics_json = None,
                        session_stats_json = None\<rparr>)]\<rparr>)"
  by (simp add: frame_at_def process_frame_def process_frame_try_def example_session_value
      latency_ms_def Let_def fmt6_2 write_imu_def write_rgb_txt_def save_intrinsics_def
      in_session_def new_stats_def)

lemma get_stats_total:
  assumes "clk 1 \<le> clk 2" and "clk 3 \<le> clk 4"
  shows "\<exists>d. get_stats clk fp = Inr d"
  using assms
  by (auto simp: get_stats_def try_bind_def fps_def bandwidth_mbps_def duration_def
        avg_latency_ms_value split: option.splits)

text \<open>
  C4 (amended). The drain of \<open>end_session\<close> polls without a bound: \<open>end_session\<close>
  returns exactly when \<open>get_stats\<close> raises or the save worker takes as many items off the
  queue as it holds within some number of sleeps.
\<close>

theorem end_session_returns_iff:
  "(\<exists>r. end_session clk worker fp = Some r)
     \<longleftrightarrow> ((\<exists>e. get_stats clk fp = Inl e)
          \<or> (\<exists>n. length (save_queue fp) \<le> removed worker 0 n))"
proof (cases "get_stats clk fp")
  case (Inl e)
  then show ?thesis by (simp add: end_session_def)
next
  case (Inr d)
  have "(\<exists>r. end_session clk worker fp = Some r)
          \<longleftrightarrow> (\<exists>k. drain worker 0 (save_queue fp) = Some k)"
    using Inr by (auto simp: end_session_def Let_def split: option.splits)
  also have "\<dots> \<longleftrightarrow> (\<exists>n. length (save_queue fp) \<le> removed worker 0 n)"
    using drain_enough[of "save_queue fp" worker 0] drain_returns[of worker 0 "save_queue fp"]
    by blast
  finally show ?thesis using Inr by simp
qed

text \<open>
  C4, witness: one queued frame and a worker that takes one item per sleep.
\<close>

theorem end_session_returns_iff_witness:
  "length (save_queue (snd (run_calls [frame_at 2 3 (JObj [])] example_session)))
     \<le> removed (\<lambda>k. 1) 0 1 \<and>
   (\<exists>r. end_session (\<lambda>i. 101) (\<lambda>k. 1)
          (snd (run_calls [frame_at 2 3 (JObj [])] example_session)) = Some r)"
proof -
  have len: "length (save_queue (snd (run_calls [frame_at 2 3 (JObj [])] example_session)))
               \<le> removed (\<lambda>k. 1) 0 1"
    by (simp add: example_good_run)
  have "\<exists>r. end_session (\<lambda>i. 101) (\<lambda>k. 1)
          (snd (run_calls [frame_at 2 3 (JObj [])] example_session)) = Some r"
    using end_session_returns_iff[of "\<lambda>i. 101" "\<lambda>k. 1"
            "snd (run_calls [frame_at 2 3 (JObj [])] example_session)"] len
    by blast
  with len show ?thesis by simp
qed

text \<open>
  C4, counterexample to the claim that \<open>end_session\<close> terminates for every state of
  the queue: one queued frame and a worker that takes nothing off the queue (stopped, or
  never started). \<open>end_session\<close> does not return.
\<close>

theorem end_session_unbounded_counterexample:
  "end_session (\<lambda>i. 101) (\<lambda>k. 0) (snd (run_calls [frame_at 2 3 (JObj [])] example_session))
     = None"
proof -
  have q: "save_queue (snd (run_calls [frame_at 2 3 (JObj [])] example_session)) \<noteq> []"
    by (simp add: example_good_run)
  obtain d where "get_stats (\<lambda>i. 101) (snd (run_calls [frame_at 2 3 (JObj [])] example_session))
                    = Inr d"
    using get_stats_total[of "\<lambda>i. 101"] by auto
  then show ?thesis
    using drain_stalled[OF q, of 0] by (simp add: end_session_def)
qed





section \<open>Properties of the validation\<close>
lemma consistent_new_result: "consistent (new_result sid)"
  by (simp add: consistent_def new_result_def)

lemma consistent_add_error:
  "0 \<le> p \<Longrightarrow> consistent r \<Longrightarrow> consistent (add_error m p r)"
  by (auto simp: consistent_def add_error_def)

lemma consistent_add_warning:
  "0 \<le> p \<Longrightarrow> consistent r \<Longrightarrow> consistent (add_warning m p r)"
  by (auto simp: consistent_def add_warning_def)

lemma consistent_add_info: "consistent (add_info m r) = consistent r"
  by (simp add: consistent_def add_info_def)

lemma consistent_update:
  "consistent (r\<lparr>v_frame_count := n\<rparr>) = consistent r"
  "consistent (r\<lparr>duration_sec := x\<rparr>) = consistent r"
  "consistent (r\<lparr>avg_fps := x\<rparr>) = consistent r"
  "consistent (r\<lparr>min_fps := x\<rparr>) = consistent r"
  "consistent (r\<lparr>max_fps := x\<rparr>) = consistent r"
  "consistent (r\<lparr>width := w\<rparr>) = consistent r"
  "consistent (r\<lparr>height := w\<rparr>) = consistent r"
  "consistent (r\<lparr>resolution_consistent := b\<rparr>) = consistent r"
  "consistent (r\<lparr>imu_records := n\<rparr>) = consistent r"
  "consistent (r\<lparr>imu_synced := b\<rparr>) = consistent r"
  "consistent (r\<lparr>imu_avg_offset_ms := x\<rparr>) = consistent r"
  "consistent (r\<lparr>has_intrinsics := b\<rparr>) = consistent r"
  "consistent (r\<lparr>intrinsics := j\<rparr>) = consistent r"
  by (simp_all add: consistent_def)

lemmas consistent_steps =
  consistent_add_error consistent_add_warning consistent_add_info consistent_update

lemma consistent_check_gaps:
  "consistent r \<Longrightarrow> consistent (snd (snd (check_gaps i ts (fv, lg, r))))"
  by (induction i ts "(fv, lg, r)" arbitrary: fv lg r rule: check_gaps.induct)
     (simp_all add: Let_def consistent_steps)

lemma consistent_duration_and_fps:
  "consistent r \<Longrightarrow> consistent (duration_and_fps ts r)"
  by (simp add: duration_and_fps_def Let_def consistent_steps)

lemma consistent_gaps_and_fps:
  assumes "consistent r"
  shows "consistent (gaps_and_fps ts r)"
proof -
  obtain fv lg r' where cg: "check_gaps 1 ts ([], 0, r) = (fv, lg, r')"
    by (cases "check_gaps 1 ts ([], 0, r)") auto
  have "consistent r'"
    using consistent_check_gaps[OF assms, of 1 ts "[]" 0] cg by simp
  then show ?thesis
    using cg by (simp add: gaps_and_fps_def Let_def consistent_steps)
qed

lemma consistent_check_monotonic:
  "consistent r \<Longrightarrow> consistent (check_monotonic ts r)"
  by (simp add: check_monotonic_def consistent_steps)

lemma consistent_validate_timing:
  "consistent r \<Longrightarrow> consistent (validate_timing ts r)"
  by (simp add: validate_timing_def consistent_duration_and_fps consistent_gaps_and_fps
        consistent_check_monotonic)

lemma consistent_check_samples:
  "consistent r \<Longrightarrow> consistent (check_samples size_of frames first idxs r)"
  by (induction idxs) (auto simp: consistent_steps split: option.splits)

lemma consistent_validate_images:
  "consistent r \<Longrightarrow> consistent (validate_images entries frames r)"
  by (auto simp: validate_images_def Let_def consistent_steps consistent_check_samples
           simp del: check_samples.simps split: option.splits)

lemma consistent_validate_imu:
  "consistent r \<Longrightarrow> consistent (validate_imu float csv ts r)"
  by (auto simp: validate_imu_def Let_def consistent_steps
           split: file_content.splits option.splits)

lemma consistent_validate_intrinsics:
  "consistent r \<Longrightarrow> consistent (validate_intrinsics intr r)"
  by (auto simp: validate_intrinsics_def Let_def consistent_steps
           split: file_content.splits sum.splits prod.splits)

lemma consistent_validate_rgb_txt:
  "consistent r \<Longrightarrow> consistent (validate_rgb_txt txt r)"
  by (auto simp: validate_rgb_txt_def Let_def consistent_steps split: file_content.splits)

lemma consistent_recommendations:
  "consistent r \<Longrightarrow> consistent (recommendations r)"
  by (simp add: recommendations_def Let_def consistent_steps)

lemma consistent_validate_session: "consistent (validate_session float sd)"
  by (auto simp: validate_session_def Let_def consistent_new_result consistent_steps
        consistent_validate_timing consistent_validate_images consistent_validate_imu
        consistent_validate_intrinsics consistent_validate_rgb_txt consistent_recommendations
      split: option.splits)


lemma add_error_fields:
  "v_frame_count (add_error m p r) = v_frame_count r"
  "warnings (add_error m p r) = warnings r"
  "errors (add_error m p r) = errors r @ [m]"
  by (simp_all add: add_error_def)

lemma add_warning_fields:
  "v_frame_count (add_warning m p r) = v_frame_count r"
  "warnings (add_warning m p r) = warnings r @ [m]"
  "errors (add_warning m p r) = errors r"
  by (simp_all add: add_warning_def)

lemma add_info_fields:
  "v_frame_count (add_info m r) = v_frame_count r"
  "warnings (add_info m r) = warnings r"
  "errors (add_info m r) = errors r"
  by (simp_all add: add_info_def)

lemmas issue_fields = add_error_fields add_warning_fields add_info_fields

lemma keeps_check_samples:
  "v_frame_count (check_samples size_of frames first idxs r) = v_frame_count r"
  "filter gap_warning (warnings (check_samples size_of frames first idxs r))
     = filter gap_warning (warnings r)"
  "count_list (errors (check_samples size_of frames first idxs r)) NotMonotonic
     = count_list (errors r) NotMonotonic"
  by (induction idxs) (auto simp: issue_fields split: option.splits)

lemma keeps_validate_images:
  "v_frame_count (validate_images entries frames r) = v_frame_count r"
  "filter gap_warning (warnings (validate_images entries frames r))
     = filter gap_warning (warnings r)"
  "count_list (errors (validate_images entries frames r)) NotMonotonic
     = count_list (errors r) NotMonotonic"
  by (auto simp: validate_images_def Let_def issue_fields keeps_check_samples
           simp del: check_samples.simps split: option.splits)

lemma keeps_validate_imu:
  "v_frame_count (validate_imu float csv ts r) = v_frame_count r"
  "filter gap_warning (warnings (validate_imu float csv ts r))
     = filter gap_warning (warnings r)"
  "count_list (errors (validate_imu float csv ts r)) NotMonotonic
     = count_list (errors r) NotMonotonic"
  by (auto simp: validate_imu_def Let_def issue_fields
           split: file_content.splits option.splits)

lemma keeps_validate_intrinsics:
  "v_frame_count (validate_intrinsics intr r) = v_frame_count r"
  "filter gap_warning (warnings (validate_intrinsics intr r))
     = filter gap_warning (warnings r)"
  "count_list (errors (validate_intrinsics intr r)) NotMonotonic
     = count_list (errors r) NotMonotonic"
  by (auto simp: validate_intrinsics_def Let_def issue_fields
           split: file_content.splits sum.splits prod.splits)

lemma keeps_validate_rgb_txt:
  "v_frame_count (validate_rgb_txt txt r) = v_frame_count r"
  "filter gap_warning (warnings (validate_rgb_txt txt r))
     = filter gap_warning (warnings r)"
  "count_list (errors (validate_rgb_txt txt r)) NotMonotonic
     = count_list (errors r) NotMonotonic"
  by (auto simp: validate_rgb_txt_def Let_def issue_fields split: file_content.splits)

lemma keeps_recommendations:
  "v_frame_count (recommendations r) = v_frame_count r"
  "filter gap_warning (warnings (recommendations r)) = filter gap_warning (warnings r)"
  "count_list (errors (recommendations r)) NotMonotonic
     = count_list (errors r) NotMonotonic"
  by (simp_all add: recommendations_def Let_def issue_fields)

lemmas keeps_later_stages = keeps_validate_images keeps_validate_imu
  keeps_validate_intrinsics keeps_validate_rgb_txt keeps_recommendations


lemma check_gaps_fields:
  "v_frame_count (snd (snd (check_gaps i ts (fv, lg, r)))) = v_frame_count r"
  "errors (snd (snd (check_gaps i ts (fv, lg, r)))) = errors r"
  by (induction i ts "(fv, lg, r)" arbitrary: fv lg r rule: check_gaps.induct)
     (simp_all add: Let_def issue_fields)

lemma threshold_order: "MAX_FRAME_GAP \<le> MAX_FRAME_GAP_ERROR"
  by (simp add: MAX_FRAME_GAP_def MAX_FRAME_GAP_ERROR_def)

lemma check_gaps_count:
  "fst (snd (check_gaps i ts (fv, lg, r)))
     = lg + length (filter (\<lambda>gap. MAX_FRAME_GAP < gap) (gaps ts))"
proof (induction i ts "(fv, lg, r)" arbitrary: fv lg r rule: check_gaps.induct)
  case (1 i a b ts fv lg r)
  show ?case
    using 1 threshold_order by (auto simp: Let_def)
qed simp_all

lemma check_gaps_warnings:
  "warnings (snd (snd (check_gaps i ts (fv, lg, r))))
     = warnings r
       @ map (\<lambda>(i, gap). LargeGapAt i gap)
           (filter (\<lambda>(i, gap). MAX_FRAME_GAP_ERROR < gap) (enumerate i (gaps ts)))"
  by (induction i ts "(fv, lg, r)" arbitrary: fv lg r rule: check_gaps.induct)
     (simp_all add: Let_def issue_fields)

lemma length_gaps: "length (gaps ts) = length ts - 1"
  by (induction ts rule: gaps.induct) simp_all


lemma duration_and_fps_fields:
  "v_frame_count (duration_and_fps ts r) = v_frame_count r"
  "warnings (duration_and_fps ts r) = warnings r"
  "count_list (errors (duration_and_fps ts r)) NotMonotonic
     = count_list (errors r) NotMonotonic"
  by (simp_all add: duration_and_fps_def Let_def issue_fields)

lemma gaps_and_fps_fields:
  "v_frame_count (gaps_and_fps ts r) = v_frame_count r"
  "errors (gaps_and_fps ts r) = errors r"
  "warnings (gaps_and_fps ts r)
     = warnings r
       @ map (\<lambda>(i, gap). LargeGapAt i gap)
           (filter (\<lambda>(i, gap). MAX_FRAME_GAP_ERROR < gap) (enumerate 1 (gaps ts)))
       @ (if \<exists>gap\<in>set (gaps ts). MAX_FRAME_GAP < gap
          then [GapsExceeded (length (filter (\<lambda>gap. MAX_FRAME_GAP < gap) (gaps ts)))]
          else [])"
proof -
  obtain fv lg r' where cg: "check_gaps 1 ts ([], 0, r) = (fv, lg, r')"
    by (cases "check_gaps 1 ts ([], 0, r)") auto
  have f: "v_frame_count r' = v_frame_count r" "errors r' = errors r"
    using check_gaps_fields[of 1 ts "[]" 0 r] cg by simp_all
  have c: "lg = length (filter (\<lambda>gap. MAX_FRAME_GAP < gap) (gaps ts))"
    using check_gaps_count[of 1 ts "[]" 0 r] cg by simp
  have w: "warnings r' = warnings r
       @ map (\<lambda>(i, gap). LargeGapAt i gap)
           (filter (\<lambda>(i, gap). MAX_FRAME_GAP_ERROR < gap) (enumerate 1 (gaps ts)))"
    using check_gaps_warnings[of 1 ts "[]" 0 r] cg by simp
  have pos: "(0 < lg) = (\<exists>gap\<in>set (gaps ts). MAX_FRAME_GAP < gap)"
    unfolding c by (simp add: filter_empty_conv)
  show "v_frame_count (gaps_and_fps ts r) = v_frame_count r"
    using cg f by (simp add: gaps_and_fps_def Let_def issue_fields)
  show "errors (gaps_and_fps ts r) = errors r"
    using cg f by (simp add: gaps_and_fps_def Let_def issue_fields)
  show "warnings (gaps_and_fps ts r)
     = warnings r
       @ map (\<lambda>(i, gap). LargeGapAt i gap)
           (filter (\<lambda>(i, gap). MAX_FRAME_GAP_ERROR < gap) (enumerate 1 (gaps ts)))
       @ (if \<exists>gap\<in>set (gaps ts). MAX_FRAME_GAP < gap
          then [GapsExceeded (length (filter (\<lambda>gap. MAX_FRAME_GAP < gap) (gaps ts)))]
          else [])"
    using cg w pos c by (simp add: gaps_and_fps_def Let_def issue_fields)
qed

lemma check_monotonic_fields:
  "v_frame_count (check_monotonic ts r) = v_frame_count r"
  "warnings (check_monotonic ts r) = warnings r"
  "count_list (errors (check_monotonic ts r)) NotMonotonic
     = count_list (errors r) NotMonotonic + (if is_monotonic ts then 0 else 1)"
  by (simp_all add: check_monotonic_def issue_fields)

lemma gap_warning_large_gaps:
  "filter gap_warning (map (\<lambda>(i, gap). LargeGapAt i gap) ps) = map (\<lambda>(i, gap). LargeGapAt i gap) ps"
  by (induction ps) auto

lemma validate_timing_fields:
  "v_frame_count (validate_timing ts r) = v_frame_count r"
  "filter gap_warning (warnings (validate_timing ts r))
     = filter gap_warning (warnings r)
       @ map (\<lambda>(i, gap). LargeGapAt i gap)
           (filter (\<lambda>(i, gap). MAX_FRAME_GAP_ERROR < gap) (enumerate 1 (gaps ts)))
       @ (if \<exists>gap\<in>set (gaps ts). MAX_FRAME_GAP < gap
          then [GapsExceeded (length (filter (\<lambda>gap. MAX_FRAME_GAP < gap) (gaps ts)))]
          else [])"
  "count_list (errors (validate_timing ts r)) NotMonotonic
     = count_list (errors r) NotMonotonic + (if is_monotonic ts then 0 else 1)"
  by (simp_all add: validate_timing_def check_monotonic_fields gaps_and_fps_fields
        duration_and_fps_fields gap_warning_large_gaps)


lemma validate_session_stages:
  assumes "sd_exists sd" and "sd_rgb sd = Some entries"
    and "sorted_frames entries = frames" and "parse_timestamps float frames = ts"
    and "2 \<le> length ts"
  shows "validate_session float sd =
           recommendations
             (validate_rgb_txt (sd_rgb_txt sd)
               (validate_intrinsics (sd_intrinsics sd)
                 (validate_imu float (sd_imu_csv sd) ts
                   (validate_images entries frames
                     (validate_timing ts
                       (if length frames < MIN_FRAMES
                        then add_error (TooFewFrames (length frames)) 30
                               ((new_result (sd_name sd))\<lparr>v_frame_count := length frames\<rparr>)
                        else (new_result (sd_name sd))\<lparr>v_frame_count := length frames\<rparr>))))))"
proof -
  have "length ts \<le> length frames"
    using assms(4) by (auto simp: parse_timestamps_def intro: order_trans[OF length_filter_le])
  then have "frames \<noteq> []" using assms(5) by auto
  then show ?thesis
    using assms by (simp add: validate_session_def Let_def)
qed




lemmas parse_simps = stem_def decimal_float_def unsigned_decimal_def digit_value_def
  parse_timestamp_def parse_timestamps_def











text \<open>
  C6 (amended). A frame is left out of the timestamp-derived checks exactly when its stem
  fails to parse or parses to a number that is not greater than 0: the timestamps are the
  parsed values of the other frames, in order. Every listed image file counts toward
  \<open>frame_count\<close>.
\<close>

theorem timestamps_kept:
  "parse_timestamps float frames
     = map (parse_timestamp float)
         (filter (\<lambda>name. case float (stem name) of None \<Rightarrow> False | Some x \<Rightarrow> 0 < x) frames)
   \<and> (sd_exists sd \<and> sd_rgb sd = Some entries
        \<longrightarrow> v_frame_count (validate_session float sd) = length (filter is_jpg (map fst entries)))"
proof
  have "(\<lambda>name. 0 < parse_timestamp float name)
          = (\<lambda>name. case float (stem name) of None \<Rightarrow> False | Some x \<Rightarrow> 0 < x)"
    by (auto simp: parse_timestamp_def split: option.splits)
  then show "parse_timestamps float frames
     = map (parse_timestamp float)
         (filter (\<lambda>name. case float (stem name) of None \<Rightarrow> False | Some x \<Rightarrow> 0 < x) frames)"
    by (simp add: parse_timestamps_def filter_map comp_def)
next
  show "sd_exists sd \<and> sd_rgb sd = Some entries
        \<longrightarrow> v_frame_count (validate_session float sd) = length (filter is_jpg (map fst entries))"
  proof
    assume a: "sd_exists sd \<and> sd_rgb sd = Some entries"
    then have e: "sd_exists sd" and r: "sd_rgb sd = Some entries" by simp_all
    have len: "length (sorted_frames entries) = length (filter is_jpg (map fst entries))"
      by (simp add: sorted_frames_def)
    show "v_frame_count (validate_session float sd) = length (filter is_jpg (map fst entries))"
    proof (cases "2 \<le> length (parse_timestamps float (sorted_frames entries))")
      case True
      show ?thesis
        by (simp add: validate_session_stages[OF e r refl refl True] len
              keeps_later_stages validate_timing_fields issue_fields new_result_def)
    next
      case False
      then show ?thesis
        using e r len by (auto simp: validate_session_def Let_def issue_fields new_result_def)
    qed
  qed
qed

text \<open>
  C6, witness: a directory with the files 0.000000.jpg, frame.jpg and 1.500000.jpg. All
  three are counted and only 1.5 is a timestamp.
\<close>

theorem timestamps_kept_witness:
  "sd_exists (frames_only [''0.000000.jpg'', ''frame.jpg'', ''1.500000.jpg'']) \<and>
   sd_rgb (frames_only [''0.000000.jpg'', ''frame.jpg'', ''1.500000.jpg'']) = Some [(''0.000000.jpg'', Some (720, 1280)), (''frame.jpg'', Some (720, 1280)), (''1.500000.jpg'', Some (720, 1280))] \<and>
   v_frame_count (validate_session decimal_float (frames_only [''0.000000.jpg'', ''frame.jpg'', ''1.500000.jpg''])) = 3 \<and>
   parse_timestamps decimal_float [''0.000000.jpg'', ''1.500000.jpg'', ''frame.jpg''] = [1.5]"
proof -
  have e: "sd_exists (frames_only [''0.000000.jpg'', ''frame.jpg'', ''1.500000.jpg''])"
    and r: "sd_rgb (frames_only [''0.000000.jpg'', ''frame.jpg'', ''1.500000.jpg'']) = Some [(''0.000000.jpg'', Some (720, 1280)), (''frame.jpg'', Some (720, 1280)), (''1.500000.jpg'', Some (720, 1280))]"
    by (simp_all add: frames_only_def)
  have "v_frame_count (validate_session decimal_float (frames_only [''0.000000.jpg'', ''frame.jpg'', ''1.500000.jpg''])) = 3"
    using timestamps_kept[of decimal_float "[]" "frames_only [''0.000000.jpg'', ''frame.jpg'', ''1.500000.jpg'']" "[(''0.000000.jpg'', Some (720, 1280)), (''frame.jpg'', Some (720, 1280)), (''1.500000.jpg'', Some (720, 1280))]"] e r
    by (simp add: is_jpg_def)
  moreover have "parse_timestamps decimal_float [''0.000000.jpg'', ''1.500000.jpg'', ''frame.jpg''] = [1.5]"
    using timestamps_kept[of decimal_float "[''0.000000.jpg'', ''1.500000.jpg'', ''frame.jpg'']" "frames_only [''0.000000.jpg'', ''frame.jpg'', ''1.500000.jpg'']" "[(''0.000000.jpg'', Some (720, 1280)), (''frame.jpg'', Some (720, 1280)), (''1.500000.jpg'', Some (720, 1280))]"]
    by (simp add: stem_def decimal_float_def unsigned_decimal_def digit_value_def
          parse_timestamp_def)
  ultimately show ?thesis using e r by blast
qed

text \<open>
  C6, counterexample to the claim that only a stem that fails to parse excludes a frame:
  the stem of 0.000000.jpg parses, to 0, and the frame is excluded.
\<close>

theorem timestamps_excluded_counterexample:
  "decimal_float (stem ''0.000000.jpg'') = Some 0 \<and>
   parse_timestamps decimal_float [''0.000000.jpg''] = []"
  by (simp add: parse_simps)


lemmas eval_simps =
  new_result_def add_error_def add_warning_def add_info_def validate_timing_def
  duration_and_fps_def gaps_and_fps_def check_monotonic_def validate_images_def
  validate_imu_def validate_intrinsics_def validate_rgb_txt_def recommendations_def
  MIN_FRAMES_def MAX_FRAME_GAP_def MAX_FRAME_GAP_ERROR_def MIN_DURATION_def Let_def

lemma sorted_frames_two:
  "sorted_frames [(''9.000000.jpg'', Some (720, 1280)), (''10.000000.jpg'', Some (720, 1280))] = [''10.000000.jpg'', ''9.000000.jpg'']"
  by (simp add: sorted_frames_def is_jpg_def)

lemma timestamps_two:
  "parse_timestamps decimal_float [''10.000000.jpg'', ''9.000000.jpg''] = [10, 9]"
  by (simp add: parse_simps)

lemma validate_two:
  "validate_session decimal_float (frames_only [''9.000000.jpg'', ''10.000000.jpg'']) =
     \<lparr>v_session_id = ''session_20241222_153045'', is_valid = False, quality_score = 0,
      v_frame_count = 2, duration_sec = -1, avg_fps = 0, min_fps = 0, max_fps = 0,
      width = 720, height = 1280, resolution_consistent = True, imu_records = 0,
      imu_synced = False, imu_avg_offset_ms = 0, has_intrinsics = False,
      intrinsics = JObj [],
      errors = [TooFewFrames 2, CaptureTooShort (-1), NotMonotonic],
      warnings = [NoImuFile, NoIntrinsics, NoRgbTxt],
      info = [ConsiderHigherFps, ShortCapture],
      score_log = [100, 70, 50, 20, 5, 0, 0]\<rparr>"
  by (subst validate_session_stages[OF _ _ sorted_frames_two timestamps_two])
     (simp_all add: frames_only_def eval_simps)

text \<open>
  C8. For every session directory the score starts at 100, each error and each warning
  replaces it by the larger of 0 and the score less the penalty, and every value it holds
  from the first to the final one lies between 0 and 100.
\<close>

theorem quality_score_bounds:
  "quality_score (new_result sid) = 100
   \<and> quality_score (add_error m p r) = max 0 (quality_score r - p)
   \<and> quality_score (add_warning m p r) = max 0 (quality_score r - p)
   \<and> quality_score (add_info m r) = quality_score r
   \<and> hd (score_log (validate_session float sd)) = 100
   \<and> last (score_log (validate_session float sd)) = quality_score (validate_session float sd)
   \<and> length (score_log (validate_session float sd))
       = 1 + length (errors (validate_session float sd))
           + length (warnings (validate_session float sd))
   \<and> list_all (\<lambda>x. 0 \<le> x \<and> x \<le> 100) (score_log (validate_session float sd))
   \<and> 0 \<le> quality_score (validate_session float sd)
   \<and> quality_score (validate_session float sd) \<le> 100"
proof -
  have "consistent (validate_session float sd)"
    by (rule consistent_validate_session)
  then show ?thesis
    by (simp add: consistent_def new_result_def add_error_def add_warning_def add_info_def)
qed

text \<open>
  C8, witness: two frames stamped 9 and 10 seconds and no other file. The penalties add up
  to 115 and the score ends at 0, having never left the range.
\<close>

theorem quality_score_bounds_witness:
  "score_log (validate_session decimal_float (frames_only [''9.000000.jpg'', ''10.000000.jpg'']))
     = [100, 70, 50, 20, 5, 0, 0]
   \<and> list_all (\<lambda>x. 0 \<le> x \<and> x \<le> 100)
        (score_log (validate_session decimal_float (frames_only [''9.000000.jpg'', ''10.000000.jpg''])))
   \<and> quality_score (validate_session decimal_float (frames_only [''9.000000.jpg'', ''10.000000.jpg''])) = 0"
  using quality_score_bounds[of "''session_20241222_153045''" SessionPathMissing 100
          "new_result ''session_20241222_153045''" decimal_float "frames_only [''9.000000.jpg'', ''10.000000.jpg'']"]
  by (simp add: validate_two)

text \<open>
  C9. For every session directory \<open>is_valid\<close> is true exactly when no error was recorded;
  a warning or an info note leaves it as it was, an error makes it false.
\<close>

theorem is_valid_iff_no_errors:
  "is_valid (validate_session float sd) = (errors (validate_session float sd) = [])
   \<and> is_valid (add_warning m p r) = is_valid r
   \<and> is_valid (add_info m r) = is_valid r
   \<and> \<not> is_valid (add_error m p r)"
proof -
  have "consistent (validate_session float sd)"
    by (rule consistent_validate_session)
  then show ?thesis
    by (simp add: consistent_def add_error_def add_warning_def add_info_def)
qed

lemma sorted_frames_thirty:
  "sorted_frames [(''1.000000.jpg'', Some (720, 1280)), (''1.200000.jpg'', Some (720, 1280)), (''1.400000.jpg'', Some (720, 1280)), (''1.600000.jpg'', Some (720, 1280)), (''1.800000.jpg'', Some (720, 1280)), (''2.000000.jpg'', Some (720, 1280)), (''2.200000.jpg'', Some (720, 1280)), (''2.400000.jpg'', Some (720, 1280)), (''2.600000.jpg'', Some (720, 1280)), (''2.800000.jpg'', Some (720, 1280)), (''3.000000.jpg'', Some (720, 1280)), (''3.200000.jpg'', Some (720, 1280)), (''3.400000.jpg'', Some (720, 1280)), (''3.600000.jpg'', Some (720, 1280)), (''3.800000.jpg'', Some (720, 1280)), (''4.000000.jpg'', Some (720, 1280)), (''4.200000.jpg'', Some (720, 1280)), (''4.400000.jpg'', Some (720, 1280)), (''4.600000.jpg'', Some (720, 1280)), (''4.800000.jpg'', Some (720, 1280)), (''5.000000.jpg'', Some (720, 1280)), (''5.200000.jpg'', Some (720, 1280)), (''5.400000.jpg'', Some (720, 1280)), (''5.600000.jpg'', Some (720, 1280)), (''5.800000.jpg'', Some (720, 1280)), (''6.000000.jpg'', Some (720, 1280)), (''6.200000.jpg'', Some (720, 1280)), (''6.400000.jpg'', Some (720, 1280)), (''6.600000.jpg'', Some (720, 1280)), (''6.800000.jpg'', Some (720, 1280))] = [''1.000000.jpg'', ''1.200000.jpg'', ''1.400000.jpg'', ''1.600000.jpg'', ''1.800000.jpg'', ''2.000000.jpg'', ''2.200000.jpg'', ''2.400000.jpg'', ''2.600000.jpg'', ''2.800000.jpg'', ''3.000000.jpg'', ''3.200000.jpg'', ''3.400000.jpg'', ''3.600000.jpg'', ''3.800000.jpg'', ''4.000000.jpg'', ''4.200000.jpg'', ''4.400000.jpg'', ''4.600000.jpg'', ''4.800000.jpg'', ''5.000000.jpg'', ''5.200000.jpg'', ''5.400000.jpg'', ''5.600000.jpg'', ''5.800000.jpg'', ''6.000000.jpg'', ''6.200000.jpg'', ''6.400000.jpg'', ''6.600000.jpg'', ''6.800000.jpg'']"
  by (simp add: sorted_frames_def is_jpg_def)

lemma timestamps_thirty:
  "parse_timestamps decimal_float [''1.000000.jpg'', ''1.200000.jpg'', ''1.400000.jpg'', ''1.600000.jpg'', ''1.800000.jpg'', ''2.000000.jpg'', ''2.200000.jpg'', ''2.400000.jpg'', ''2.600000.jpg'', ''2.800000.jpg'', ''3.000000.jpg'', ''3.200000.jpg'', ''3.400000.jpg'', ''3.600000.jpg'', ''3.800000.jpg'', ''4.000000.jpg'', ''4.200000.jpg'', ''4.400000.jpg'', ''4.600000.jpg'', ''4.800000.jpg'', ''5.000000.jpg'', ''5.200000.jpg'', ''5.400000.jpg'', ''5.600000.jpg'', ''5.800000.jpg'', ''6.000000.jpg'', ''6.200000.jpg'', ''6.400000.jpg'', ''6.600000.jpg'', ''6.800000.jpg''] = [1.0, 1.2, 1.4, 1.6, 1.8, 2.0, 2.2, 2.4, 2.6, 2.8, 3.0, 3.2, 3.4, 3.6, 3.8, 4.0, 4.2, 4.4, 4.6, 4.8, 5.0, 5.2, 5.4, 5.6, 5.8, 6.0, 6.2, 6.4, 6.6, 6.8 :: real]"
  by (simp add: parse_simps)


text \<open>
  C9, witness: thirty frames of one size, 0.2 s apart, and no other file. Three warnings
  and two info notes are recorded, no error, and the result is valid.
\<close>

theorem is_valid_iff_no_errors_witness:
  "is_valid (validate_session decimal_float (frames_only [''1.000000.jpg'', ''1.200000.jpg'', ''1.400000.jpg'', ''1.600000.jpg'', ''1.800000.jpg'', ''2.000000.jpg'', ''2.200000.jpg'', ''2.400000.jpg'', ''2.600000.jpg'', ''2.800000.jpg'', ''3.000000.jpg'', ''3.200000.jpg'', ''3.400000.jpg'', ''3.600000.jpg'', ''3.800000.jpg'', ''4.000000.jpg'', ''4.200000.jpg'', ''4.400000.jpg'', ''4.600000.jpg'', ''4.800000.jpg'', ''5.000000.jpg'', ''5.200000.jpg'', ''5.400000.jpg'', ''5.600000.jpg'', ''5.800000.jpg'', ''6.000000.jpg'', ''6.200000.jpg'', ''6.400000.jpg'', ''6.600000.jpg'', ''6.800000.jpg'']))
   \<and> errors (validate_session decimal_float (frames_only [''1.000000.jpg'', ''1.200000.jpg'', ''1.400000.jpg'', ''1.600000.jpg'', ''1.800000.jpg'', ''2.000000.jpg'', ''2.200000.jpg'', ''2.400000.jpg'', ''2.600000.jpg'', ''2.800000.jpg'', ''3.000000.jpg'', ''3.200000.jpg'', ''3.400000.jpg'', ''3.600000.jpg'', ''3.800000.jpg'', ''4.000000.jpg'', ''4.200000.jpg'', ''4.400000.jpg'', ''4.600000.jpg'', ''4.800000.jpg'', ''5.000000.jpg'', ''5.200000.jpg'', ''5.400000.jpg'', ''5.600000.jpg'', ''5.800000.jpg'', ''6.000000.jpg'', ''6.200000.jpg'', ''6.400000.jpg'', ''6.600000.jpg'', ''6.800000.jpg''])) = []
   \<and> warnings (validate_session decimal_float (frames_only [''1.000000.jpg'', ''1.200000.jpg'', ''1.400000.jpg'', ''1.600000.jpg'', ''1.800000.jpg'', ''2.000000.jpg'', ''2.200000.jpg'', ''2.400000.jpg'', ''2.600000.jpg'', ''2.800000.jpg'', ''3.000000.jpg'', ''3.200000.jpg'', ''3.400000.jpg'', ''3.600000.jpg'', ''3.800000.jpg'', ''4.000000.jpg'', ''4.200000.jpg'', ''4.400000.jpg'', ''4.600000.jpg'', ''4.800000.jpg'', ''5.000000.jpg'', ''5.200000.jpg'', ''5.400000.jpg'', ''5.600000.jpg'', ''5.800000.jpg'', ''6.000000.jpg'', ''6.200000.jpg'', ''6.400000.jpg'', ''6.600000.jpg'', ''6.800000.jpg'']))
       = [NoImuFile, NoIntrinsics, NoRgbTxt]
   \<and> info (validate_session decimal_float (frames_only [''1.000000.jpg'', ''1.200000.jpg'', ''1.400000.jpg'', ''1.600000.jpg'', ''1.800000.jpg'', ''2.000000.jpg'', ''2.200000.jpg'', ''2.400000.jpg'', ''2.600000.jpg'', ''2.800000.jpg'', ''3.000000.jpg'', ''3.200000.jpg'', ''3.400000.jpg'', ''3.600000.jpg'', ''3.800000.jpg'', ''4.000000.jpg'', ''4.200000.jpg'', ''4.400000.jpg'', ''4.600000.jpg'', ''4.800000.jpg'', ''5.000000.jpg'', ''5.200000.jpg'', ''5.400000.jpg'', ''5.600000.jpg'', ''5.800000.jpg'', ''6.000000.jpg'', ''6.200000.jpg'', ''6.400000.jpg'', ''6.600000.jpg'', ''6.800000.jpg'']))
       = [ConsiderHigherFps, ShortCapture]"
proof -
  let ?sd = "frames_only [''1.000000.jpg'', ''1.200000.jpg'', ''1.400000.jpg'', ''1.600000.jpg'', ''1.800000.jpg'', ''2.000000.jpg'', ''2.200000.jpg'', ''2.400000.jpg'', ''2.600000.jpg'', ''2.800000.jpg'', ''3.000000.jpg'', ''3.200000.jpg'', ''3.400000.jpg'', ''3.600000.jpg'', ''3.800000.jpg'', ''4.000000.jpg'', ''4.200000.jpg'', ''4.400000.jpg'', ''4.600000.jpg'', ''4.800000.jpg'', ''5.000000.jpg'', ''5.200000.jpg'', ''5.400000.jpg'', ''5.600000.jpg'', ''5.800000.jpg'', ''6.000000.jpg'', ''6.200000.jpg'', ''6.400000.jpg'', ''6.600000.jpg'', ''6.800000.jpg'']"
  have e: "sd_exists ?sd"
    and r: "sd_rgb ?sd = Some [(''1.000000.jpg'', Some (720, 1280)), (''1.200000.jpg'', Some (720, 1280)), (''1.400000.jpg'', Some (720, 1280)), (''1.600000.jpg'', Some (720, 1280)), (''1.800000.jpg'', Some (720, 1280)), (''2.000000.jpg'', Some (720, 1280)), (''2.200000.jpg'', Some (720, 1280)), (''2.400000.jpg'', Some (720, 1280)), (''2.600000.jpg'', Some (720, 1280)), (''2.800000.jpg'', Some (720, 1280)), (''3.000000.jpg'', Some (720, 1280)), (''3.200000.jpg'', Some (720, 1280)), (''3.400000.jpg'', Some (720, 1280)), (''3.600000.jpg'', Some (720, 1280)), (''3.800000.jpg'', Some (720, 1280)), (''4.000000.jpg'', Some (720, 1280)), (''4.200000.jpg'', Some (720, 1280)), (''4.400000.jpg'', Some (720, 1280)), (''4.600000.jpg'', Some (720, 1280)), (''4.800000.jpg'', Some (720, 1280)), (''5.000000.jpg'', Some (720, 1280)), (''5.200000.jpg'', Some (720, 1280)), (''5.400000.jpg'', Some (720, 1280)), (''5.600000.jpg'', Some (720, 1280)), (''5.800000.jpg'', Some (720, 1280)), (''6.000000.jpg'', Some (720, 1280)), (''6.200000.jpg'', Some (720, 1280)), (''6.400000.jpg'', Some (720, 1280)), (''6.600000.jpg'', Some (720, 1280)), (''6.800000.jpg'', Some (720, 1280))]"
    by (simp_all add: frames_only_def)
  have l: "2 \<le> length [1.0, 1.2, 1.4, 1.6, 1.8, 2.0, 2.2, 2.4, 2.6, 2.8, 3.0, 3.2, 3.4, 3.6, 3.8, 4.0, 4.2, 4.4, 4.6, 4.8, 5.0, 5.2, 5.4, 5.6, 5.8, 6.0, 6.2, 6.4, 6.6, 6.8 :: real]" by simp
  note st = validate_session_stages[OF e r sorted_frames_thirty timestamps_thirty l]
  have w: "warnings (validate_session decimal_float ?sd) = [NoImuFile, NoIntrinsics, NoRgbTxt]"
    unfolding st by (simp add: frames_only_def eval_simps)
  have i: "info (validate_session decimal_float ?sd) = [ConsiderHigherFps, ShortCapture]"
    unfolding st by (simp add: frames_only_def eval_simps)
  have v: "is_valid (validate_session decimal_float ?sd)"
    unfolding st by (simp add: frames_only_def eval_simps)
  from v have "errors (validate_session decimal_float ?sd) = []"
    using is_valid_iff_no_errors[of decimal_float ?sd] by simp
  with v w i show ?thesis by simp
qed



section \<open>Properties of the session list\<close>







































end
